theory Spec2Isabelle
  imports Main
begin

section \<open>The Go library functions the parser calls\<close>

text \<open>
  A Go string is a sequence of bytes: \<open>string\<close> (a \<open>char list\<close>) models it, \<open>length\<close> is Go's
  \<open>len\<close>, and \<open>byte c\<close> is the numeric value of a byte. A rune is a code point, an \<open>int32\<close> in Go.
\<close>

type_synonym rune = int

definition byte :: "char \<Rightarrow> int" where
  "byte c = of_char c"

definition RuneError :: rune where
  "RuneError = 0xFFFD"

definition newline :: char where
  "newline = CHR 0x0A"

text \<open>\<open>s[a:b]\<close> for \<open>a \<le> b \<le> len(s)\<close>, and \<open>s[a:]\<close>.\<close>

definition slice :: "string \<Rightarrow> nat \<Rightarrow> nat \<Rightarrow> string" where
  "slice s a b = take (b - a) (drop a s)"

text \<open>
  \<open>utf8.DecodeRuneInString\<close>: the first rune of the string and its width in bytes;
  \<open>(RuneError, 0)\<close> for the empty string and \<open>(RuneError, 1)\<close> for an invalid encoding.
\<close>

definition cont :: "int \<Rightarrow> bool" where
  "cont b = (0x80 \<le> b \<and> b \<le> 0xBF)"

definition DecodeRuneInString :: "string \<Rightarrow> rune \<times> nat" where
  "DecodeRuneInString s =
     (case s of
        [] \<Rightarrow> (RuneError, 0)
      | c0 # r \<Rightarrow>
          (let b0 = byte c0 in
           if b0 < 0x80 then (b0, 1)
           else if b0 < 0xC2 then (RuneError, 1)
           else if b0 < 0xE0 then
             (case r of
                c1 # _ \<Rightarrow>
                  if cont (byte c1) then ((b0 mod 32) * 64 + byte c1 mod 64, 2)
                  else (RuneError, 1)
              | _ \<Rightarrow> (RuneError, 1))
           else if b0 < 0xF0 then
             (case r of
                c1 # c2 # _ \<Rightarrow>
                  (let b1 = byte c1; b2 = byte c2;
                       lo = (if b0 = 0xE0 then 0xA0 else 0x80);
                       hi = (if b0 = 0xED then 0x9F else 0xBF)
                   in if lo \<le> b1 \<and> b1 \<le> hi \<and> cont b2
                      then ((b0 mod 16) * 4096 + (b1 mod 64) * 64 + b2 mod 64, 3)
                      else (RuneError, 1))
              | _ \<Rightarrow> (RuneError, 1))
           else if b0 < 0xF5 then
             (case r of
                c1 # c2 # c3 # _ \<Rightarrow>
                  (let b1 = byte c1; b2 = byte c2; b3 = byte c3;
                       lo = (if b0 = 0xF0 then 0x90 else 0x80);
                       hi = (if b0 = 0xF4 then 0x8F else 0xBF)
                   in if lo \<le> b1 \<and> b1 \<le> hi \<and> cont b2 \<and> cont b3
                      then ((b0 mod 8) * 262144 + (b1 mod 64) * 4096 + (b2 mod 64) * 64 + b3 mod 64, 4)
                      else (RuneError, 1))
              | _ \<Rightarrow> (RuneError, 1))
           else (RuneError, 1)))"

text \<open>
  \<open>utf8.DecodeLastRuneInString\<close>: it steps back over at most three continuation bytes to a
  byte that can start a rune, decodes from there, and accepts the rune only when it ends at
  the end of the string.
\<close>

definition RuneStart :: "int \<Rightarrow> bool" where
  "RuneStart b = (\<not> cont b)"

definition DecodeLastRuneInString :: "string \<Rightarrow> rune \<times> nat" where
  "DecodeLastRuneInString s =
     (if s = [] then (RuneError, 0)
      else
        (let fin = int (length s); b = byte (last s) in
         if b < 0x80 then (b, 1)
         else
           (let lim = max 0 (fin - 4);
                cands = filter (\<lambda>k. lim \<le> k \<and> RuneStart (byte (s ! nat k)))
                          [fin - 2, fin - 3, fin - 4];
                start = (case cands of k # _ \<Rightarrow> k | [] \<Rightarrow> max 0 (lim - 1));
                (r, sz) = DecodeRuneInString (drop (nat start) s)
            in if start + int sz \<noteq> fin then (RuneError, 1) else (r, sz))))"

text \<open>\<open>unicode.IsSpace\<close>: the code points with the White_Space property.\<close>

definition IsSpace :: "rune \<Rightarrow> bool" where
  "IsSpace r = ((9 \<le> r \<and> r \<le> 13) \<or> r = 0x20 \<or> r = 0x85 \<or> r = 0xA0 \<or> r = 0x1680
      \<or> (0x2000 \<le> r \<and> r \<le> 0x200A) \<or> r = 0x2028 \<or> r = 0x2029 \<or> r = 0x202F
      \<or> r = 0x205F \<or> r = 0x3000)"

text \<open>
  \<open>unicode.IsLetter\<close> and \<open>unicode.IsDigit\<close> on \<open>rune(b)\<close> for a byte \<open>b\<close>, the only way the
  parser calls them: the letters and digits of Latin-1.
\<close>

definition IsLetter :: "rune \<Rightarrow> bool" where
  "IsLetter r = ((0x41 \<le> r \<and> r \<le> 0x5A) \<or> (0x61 \<le> r \<and> r \<le> 0x7A) \<or> r = 0xAA \<or> r = 0xB5
      \<or> r = 0xBA \<or> (0xC0 \<le> r \<and> r \<le> 0xD6) \<or> (0xD8 \<le> r \<and> r \<le> 0xF6)
      \<or> (0xF8 \<le> r \<and> r \<le> 0xFF))"

definition IsDigit :: "rune \<Rightarrow> bool" where
  "IsDigit r = (0x30 \<le> r \<and> r \<le> 0x39)"

text \<open>
  \<open>strings.ContainsRune(s, r)\<close> for an ASCII string \<open>s\<close> (every call site passes a literal):
  \<open>r\<close> is the value of one of its bytes.
\<close>

definition ContainsRune :: "string \<Rightarrow> rune \<Rightarrow> bool" where
  "ContainsRune s r = (r \<in> set (map byte s))"

text \<open>\<open>strings.HasPrefix\<close>, \<open>strings.HasSuffix\<close>, \<open>strings.Index\<close> (\<open>-1\<close> when absent).\<close>

definition HasPrefix :: "string \<Rightarrow> string \<Rightarrow> bool" where
  "HasPrefix s p = (take (length p) s = p)"

definition HasSuffix :: "string \<Rightarrow> string \<Rightarrow> bool" where
  "HasSuffix s p = (length p \<le> length s \<and> drop (length s - length p) s = p)"

primrec IndexFrom :: "string \<Rightarrow> string \<Rightarrow> nat \<Rightarrow> nat option" where
  "IndexFrom [] sub i = (if sub = [] then Some i else None)"
| "IndexFrom (c # s) sub i =
     (if HasPrefix (c # s) sub then Some i else IndexFrom s sub (Suc i))"

definition Index :: "string \<Rightarrow> string \<Rightarrow> int" where
  "Index s sub = (case IndexFrom s sub 0 of None \<Rightarrow> - 1 | Some i \<Rightarrow> int i)"

text \<open>
  \<open>strings.Split(s, sep)\<close> for a non-empty separator, \<open>strings.SplitN(s, sep, 2)\<close>,
  \<open>strings.Fields\<close> and \<open>strings.TrimSpace\<close> (both at the runes of \<open>unicode.IsSpace\<close>, decoded
  as \<open>DecodeRuneInString\<close> and \<open>DecodeLastRuneInString\<close> do; \<open>skip\<close> counts the bytes of the rune
  at hand that are still to pass), \<open>strings.Repeat(" ", n)\<close> and \<open>strings.Join\<close>.
\<close>

primrec SplitAcc :: "string \<Rightarrow> string \<Rightarrow> nat \<Rightarrow> string \<Rightarrow> string list" where
  "SplitAcc [] sep skip cur = [cur]"
| "SplitAcc (c # s) sep skip cur =
     (if 0 < skip then SplitAcc s sep (skip - 1) cur
      else if HasPrefix (c # s) sep then cur # SplitAcc s sep (length sep - 1) []
      else SplitAcc s sep 0 (cur @ [c]))"

definition Split :: "string \<Rightarrow> string \<Rightarrow> string list" where
  "Split s sep = SplitAcc s sep 0 []"

definition SplitN2 :: "string \<Rightarrow> string \<Rightarrow> string list" where
  "SplitN2 s sep =
     (case IndexFrom s sep 0 of
        None \<Rightarrow> [s]
      | Some i \<Rightarrow> [take i s, drop (i + length sep) s])"

primrec FieldsAcc :: "string \<Rightarrow> nat \<Rightarrow> bool \<Rightarrow> string \<Rightarrow> string list" where
  "FieldsAcc [] skip inSpace cur = (if cur = [] then [] else [cur])"
| "FieldsAcc (c # s) skip inSpace cur =
     (if 0 < skip then FieldsAcc s (skip - 1) inSpace (if inSpace then cur else cur @ [c])
      else
        (let r = DecodeRuneInString (c # s) in
         if IsSpace (fst r)
         then (if cur = [] then FieldsAcc s (snd r - 1) True []
               else cur # FieldsAcc s (snd r - 1) True [])
         else FieldsAcc s (snd r - 1) False (cur @ [c])))"

definition Fields :: "string \<Rightarrow> string list" where
  "Fields s = FieldsAcc s 0 False []"

primrec TrimLeftAcc :: "string \<Rightarrow> nat \<Rightarrow> string" where
  "TrimLeftAcc [] skip = []"
| "TrimLeftAcc (c # s) skip =
     (if 0 < skip then TrimLeftAcc s (skip - 1)
      else
        (let r = DecodeRuneInString (c # s) in
         if IsSpace (fst r) then TrimLeftAcc s (snd r - 1) else c # s))"

text \<open>The argument of \<open>TrimRightAcc\<close> is the string reversed; its result is not.\<close>

primrec TrimRightAcc :: "string \<Rightarrow> nat \<Rightarrow> string" where
  "TrimRightAcc [] skip = []"
| "TrimRightAcc (c # s) skip =
     (if 0 < skip then TrimRightAcc s (skip - 1)
      else
        (let r = DecodeLastRuneInString (rev (c # s)) in
         if IsSpace (fst r) then TrimRightAcc s (snd r - 1) else rev (c # s)))"

definition TrimSpace :: "string \<Rightarrow> string" where
  "TrimSpace s = TrimRightAcc (rev (TrimLeftAcc s 0)) 0"

definition Repeat :: "nat \<Rightarrow> string" where
  "Repeat n = replicate n CHR '' ''"

primrec Join :: "string list \<Rightarrow> string \<Rightarrow> string" where
  "Join [] sep = []"
| "Join (x # xs) sep = (if xs = [] then x else x @ sep @ Join xs sep)"

section \<open>Regular expressions\<close>

text \<open>
  Go's \<open>regexp\<close> finds the leftmost match and, among those, the one a backtracking search
  finds first. The patterns of the parser repeat single character classes only, so the
  matcher below is a backtracking search over: one byte of a class, a class repeated (at
  least \<open>lo\<close>, at most \<open>hi\<close> times, greedy or lazy), concatenation, ordered alternation, a
  greedy optional part, a capture group and the end of the text. It works on bytes: every
  literal of the patterns is ASCII, so a match never splits a UTF-8 sequence.
\<close>

datatype re =
    Chr "char \<Rightarrow> bool"
  | Rep "char \<Rightarrow> bool" nat "nat option" bool
  | Cat re re
  | Alt re re
  | Opt re
  | Grp nat re
  | Eot
  | Eps

type_synonym caps = "nat \<Rightarrow> string"

primrec rep :: "(char \<Rightarrow> bool) \<Rightarrow> nat \<Rightarrow> nat option \<Rightarrow> bool \<Rightarrow> string \<Rightarrow> nat
    \<Rightarrow> (string \<Rightarrow> 'r option) \<Rightarrow> 'r option" where
  "rep p lo hi greedy [] cnt k = (if lo \<le> cnt then k [] else None)"
| "rep p lo hi greedy (c # s) cnt k =
     (let stop = (if lo \<le> cnt then k (c # s) else None) in
      if p c \<and> (case hi of None \<Rightarrow> True | Some h \<Rightarrow> cnt < h) then
        (if greedy then
           (case rep p lo hi greedy s (Suc cnt) k of Some r \<Rightarrow> Some r | None \<Rightarrow> stop)
         else
           (case stop of Some r \<Rightarrow> Some r | None \<Rightarrow> rep p lo hi greedy s (Suc cnt) k))
      else stop)"

primrec rmatch :: "re \<Rightarrow> string \<Rightarrow> caps \<Rightarrow> (string \<Rightarrow> caps \<Rightarrow> (string \<times> caps) option)
    \<Rightarrow> (string \<times> caps) option" where
  "rmatch (Chr p) s cs k = (case s of [] \<Rightarrow> None | c # s' \<Rightarrow> if p c then k s' cs else None)"
| "rmatch (Rep p lo hi greedy) s cs k = rep p lo hi greedy s 0 (\<lambda>s'. k s' cs)"
| "rmatch (Cat a b) s cs k = rmatch a s cs (\<lambda>s' cs'. rmatch b s' cs' k)"
| "rmatch (Alt a b) s cs k =
     (case rmatch a s cs k of Some r \<Rightarrow> Some r | None \<Rightarrow> rmatch b s cs k)"
| "rmatch (Opt a) s cs k = (case rmatch a s cs k of Some r \<Rightarrow> Some r | None \<Rightarrow> k s cs)"
| "rmatch (Grp n a) s cs k =
     rmatch a s cs (\<lambda>s' cs'. k s' (cs'(n := take (length s - length s') s)))"
| "rmatch Eot s cs k = (if s = [] then k s cs else None)"
| "rmatch Eps s cs k = k s cs"

text \<open>The least number of bytes a match of a pattern takes.\<close>

primrec minLen :: "re \<Rightarrow> nat" where
  "minLen (Chr p) = 1"
| "minLen (Rep p lo hi greedy) = lo"
| "minLen (Cat a b) = minLen a + minLen b"
| "minLen (Alt a b) = min (minLen a) (minLen b)"
| "minLen (Opt a) = 0"
| "minLen (Grp n a) = minLen a"
| "minLen Eot = 0"
| "minLen Eps = 0"

text \<open>
  A compiled pattern: whether it starts with \<open>^\<close>, its body and the number of its groups.
  \<open>matchAt\<close> is a match starting at the head of the string: the length of the match and the
  groups (an unset group is the empty string, as in Go's result).
\<close>

record regexp =
  anchored :: bool
  body :: re
  groups :: nat

primrec groupList :: "caps \<Rightarrow> nat \<Rightarrow> string list" where
  "groupList cs 0 = []"
| "groupList cs (Suc n) = groupList cs n @ [cs (Suc n)]"

definition matchAt :: "regexp \<Rightarrow> string \<Rightarrow> (nat \<times> string list) option" where
  "matchAt r s =
     (case rmatch (body r) s (\<lambda>_. []) (\<lambda>s' cs. Some (s', cs)) of
        None \<Rightarrow> None
      | Some (s', cs) \<Rightarrow>
          Some (length s - length s', take (length s - length s') s # groupList cs (groups r)))"

primrec search :: "regexp \<Rightarrow> string \<Rightarrow> nat \<Rightarrow> (nat \<times> nat \<times> string list) option" where
  "search r [] i = (case matchAt r [] of None \<Rightarrow> None | Some (n, m) \<Rightarrow> Some (i, n, m))"
| "search r (c # s) i =
     (case matchAt r (c # s) of
        Some (n, m) \<Rightarrow> Some (i, n, m)
      | None \<Rightarrow> search r s (Suc i))"

definition findFirst :: "regexp \<Rightarrow> string \<Rightarrow> (nat \<times> nat \<times> string list) option" where
  "findFirst r s =
     (if anchored r then
        (case matchAt r s of None \<Rightarrow> None | Some (n, m) \<Rightarrow> Some (0, n, m))
      else search r s 0)"

text \<open>\<open>FindStringSubmatch\<close> (\<open>None\<close> is Go's nil), \<open>FindStringIndex\<close> and \<open>MatchString\<close>.\<close>

definition FindStringSubmatch :: "regexp \<Rightarrow> string \<Rightarrow> string list option" where
  "FindStringSubmatch r s = (case findFirst r s of None \<Rightarrow> None | Some (i, n, m) \<Rightarrow> Some m)"

definition FindStringIndex :: "regexp \<Rightarrow> string \<Rightarrow> (nat \<times> nat) option" where
  "FindStringIndex r s = (case findFirst r s of None \<Rightarrow> None | Some (i, n, m) \<Rightarrow> Some (i, i + n))"

definition MatchString :: "regexp \<Rightarrow> string \<Rightarrow> bool" where
  "MatchString r s = (findFirst r s \<noteq> None)"

text \<open>The character classes of the patterns: \<open>\d\<close>, \<open>\w\<close>, \<open>\s\<close> are ASCII in Go.\<close>

definition lit :: "char \<Rightarrow> re" where
  "lit c = Chr (\<lambda>x. x = c)"

definition lits :: "string \<Rightarrow> re" where
  "lits s = foldr (\<lambda>c r. Cat (lit c) r) s Eps"

definition oneOf :: "string \<Rightarrow> char \<Rightarrow> bool" where
  "oneOf s c = (c \<in> set s)"

definition noneOf :: "string \<Rightarrow> char \<Rightarrow> bool" where
  "noneOf s c = (c \<notin> set s)"

definition digit :: "char \<Rightarrow> bool" where
  "digit c = (0x30 \<le> byte c \<and> byte c \<le> 0x39)"

definition alpha :: "char \<Rightarrow> bool" where
  "alpha c = ((0x41 \<le> byte c \<and> byte c \<le> 0x5A) \<or> (0x61 \<le> byte c \<and> byte c \<le> 0x7A))"

definition wordc :: "char \<Rightarrow> bool" where
  "wordc c = (digit c \<or> alpha c \<or> c = CHR ''_'')"

definition spacec :: "char \<Rightarrow> bool" where
  "spacec c = (c = CHR 0x09 \<or> c = CHR 0x0A \<or> c = CHR 0x0C \<or> c = CHR 0x0D \<or> c = CHR '' '')"

definition dot :: "char \<Rightarrow> bool" where
  "dot c = (c \<noteq> newline)"

definition anyc :: "char \<Rightarrow> bool" where
  "anyc c = True"

definition starOf :: "(char \<Rightarrow> bool) \<Rightarrow> re" where
  "starOf p = Rep p 0 None True"

definition plusOf :: "(char \<Rightarrow> bool) \<Rightarrow> re" where
  "plusOf p = Rep p 1 None True"

definition lazyStar :: "(char \<Rightarrow> bool) \<Rightarrow> re" where
  "lazyStar p = Rep p 0 None False"

definition lazyPlus :: "(char \<Rightarrow> bool) \<Rightarrow> re" where
  "lazyPlus p = Rep p 1 None False"

definition timesOf :: "(char \<Rightarrow> bool) \<Rightarrow> nat \<Rightarrow> re" where
  "timesOf p n = Rep p n (Some n) True"

primrec cats :: "re list \<Rightarrow> re" where
  "cats [] = Eps"
| "cats (r # rs) = Cat r (cats rs)"


text \<open>The patterns of the inline parser (inline.go), the footnotes and the lists.\<close>

definition backslash :: char where
  "backslash = CHR 0x5C"

definition subScriptSuperScriptRegexp :: regexp where
  "subScriptSuperScriptRegexp = \<lparr>anchored = True,
     body = cats [Grp 1 (Chr (oneOf ''_^'')), lit CHR ''{'', Grp 2 (lazyPlus (noneOf ''{}'')),
                  lit CHR ''}''],
     groups = 2\<rparr>"

definition timestampRegexp :: regexp where
  "timestampRegexp = \<lparr>anchored = True,
     body = cats [lit CHR ''<'',
                  Grp 1 (cats [timesOf digit 4, lit CHR ''-'', timesOf digit 2, lit CHR ''-'',
                               timesOf digit 2]),
                  Opt (Grp 2 (cats [lit CHR '' '', plusOf alpha])),
                  Opt (Grp 3 (cats [lit CHR '' '', timesOf digit 2, lit CHR '':'', timesOf digit 2])),
                  Opt (Grp 4 (cats [lit CHR '' '', lit CHR ''+'', plusOf digit, Chr (oneOf ''dwmy'')])),
                  lit CHR ''>''],
     groups = 4\<rparr>"

definition footnoteRegexp :: regexp where
  "footnoteRegexp = \<lparr>anchored = True,
     body = cats [lits ''[fn:'', Grp 1 (lazyStar (\<lambda>c. wordc c \<or> c = CHR ''-'')),
                  Opt (Grp 2 (cats [lit CHR '':'', Grp 3 (lazyStar dot)])), lit CHR '']''],
     groups = 3\<rparr>"

definition statisticsTokenRegexp :: regexp where
  "statisticsTokenRegexp = \<lparr>anchored = True,
     body = cats [lit CHR ''['',
                  Grp 1 (Alt (cats [plusOf digit, lit CHR ''/'', plusOf digit])
                             (cats [plusOf digit, lit CHR ''%''])),
                  lit CHR '']''],
     groups = 1\<rparr>"

definition latexFragmentRegexp :: regexp where
  "latexFragmentRegexp = \<lparr>anchored = True,
     body = cats [lits (backslash # ''begin{''), Grp 1 (plusOf wordc), lit CHR ''}'',
                  Grp 2 (starOf anyc), lits (backslash # ''end{''), Grp 3 (plusOf wordc),
                  lit CHR ''}''],
     groups = 3\<rparr>"

definition inlineBlockRegexp :: regexp where
  "inlineBlockRegexp = \<lparr>anchored = False,
     body = cats [lits ''src_'', Grp 1 (plusOf wordc),
                  Opt (Grp 2 (cats [lit CHR ''['', Grp 3 (starOf (noneOf '']'')), lit CHR '']''])),
                  lit CHR ''{'', Grp 4 (starOf (noneOf ''}'')), lit CHR ''}''],
     groups = 4\<rparr>"

definition inlineExportBlockRegexp :: regexp where
  "inlineExportBlockRegexp = \<lparr>anchored = False,
     body = cats [lits ''@@'', Grp 1 (plusOf wordc), lit CHR '':'', Grp 2 (lazyStar dot),
                  lits ''@@''],
     groups = 2\<rparr>"

definition macroRegexp :: regexp where
  "macroRegexp = \<lparr>anchored = False,
     body = cats [lits ''{{{'', Grp 1 (starOf dot), lit CHR ''('', Grp 2 (starOf dot),
                  lit CHR '')'', lits ''}}}''],
     groups = 2\<rparr>"

definition autolinkProtocols :: regexp where
  "autolinkProtocols = \<lparr>anchored = True,
     body = cats [Grp 1 (Alt (cats [lits ''http'', Opt (lit CHR ''s'')])
                             (Alt (lits ''ftp'') (lits ''file''))),
                  Eot],
     groups = 1\<rparr>"

definition footnoteDefinitionRegexp :: regexp where
  "footnoteDefinitionRegexp = \<lparr>anchored = True,
     body = cats [lits ''[fn:'', Grp 1 (plusOf (\<lambda>c. wordc c \<or> c = CHR ''-'')), lit CHR '']'',
                  Grp 2 (Alt (cats [plusOf spacec, Grp 3 (plusOf dot)])
                             (cats [starOf spacec, Eot]))],
     groups = 3\<rparr>"

definition unorderedListRegexp :: regexp where
  "unorderedListRegexp = \<lparr>anchored = True,
     body = cats [Grp 1 (starOf spacec), Grp 2 (Chr (oneOf ''+*-'')),
                  Grp 3 (Alt (cats [plusOf spacec, Grp 4 (starOf dot)]) Eot)],
     groups = 4\<rparr>"

definition orderedListRegexp :: regexp where
  "orderedListRegexp = \<lparr>anchored = True,
     body = cats [Grp 1 (starOf spacec),
                  Grp 2 (cats [Grp 3 (Alt (plusOf digit) (Chr alpha)), Chr (oneOf ''.)'')]),
                  Grp 4 (Alt (cats [plusOf spacec, Grp 5 (starOf dot)]) Eot)],
     groups = 5\<rparr>"

definition descriptiveListItemRegexp :: regexp where
  "descriptiveListItemRegexp = \<lparr>anchored = False,
     body = cats [Chr spacec, lits ''::'', Grp 1 (Alt (Chr spacec) Eot)],
     groups = 1\<rparr>"

definition listItemValueRegexp :: regexp where
  "listItemValueRegexp = \<lparr>anchored = False,
     body = cats [lits ''[@'', Grp 1 (plusOf digit), lit CHR '']'', Chr spacec],
     groups = 1\<rparr>"

definition listItemStatusRegexp :: regexp where
  "listItemStatusRegexp = \<lparr>anchored = False,
     body = cats [lit CHR ''['', Grp 1 (Alt (lit CHR '' '') (Alt (lit CHR ''X'') (lit CHR ''-''))),
                  lit CHR '']'', Chr spacec],
     groups = 1\<rparr>"


section \<open>The data model\<close>

record Position =
  StartLine :: int
  StartColumn :: int
  EndLine :: int
  EndColumn :: int

definition noPosition :: Position where
  "noPosition = \<lparr>StartLine = 0, StartColumn = 0, EndLine = 0, EndColumn = 0\<rparr>"

record token =
  kind :: string
  lvl :: int
  content :: string
  matches :: "string list"
  line :: int
  startCol :: int
  endCol :: int

definition mkToken :: "string \<Rightarrow> int \<Rightarrow> string \<Rightarrow> string list \<Rightarrow> token" where
  "mkToken k l c m = \<lparr>kind = k, lvl = l, content = c, matches = m, line = 0, startCol = 0, endCol = 0\<rparr>"

definition nilToken :: token where
  "nilToken = mkToken ''nil'' (- 1) [] []"

definition zeroToken :: token where
  "zeroToken = mkToken [] 0 [] []"

text \<open>
  \<open>time.Time\<close> as far as a timestamp fills it: year, month, day, hour, minute.
\<close>

datatype Time = Time int int int int int

datatype ListKind = UnorderedList | OrderedList | DescriptiveList

text \<open>
  A value of the interface \<open>Node\<close>: \<open>NilNode\<close> is Go's nil, then the node types of inline.go,
  the footnote definition and the lists. \<open>Paragraph\<close> (built by the footnote references) is
  declared outside the three files; \<open>OtherNode\<close> stands for every other node type declared
  there (headlines, tables, blocks, ...), with the type's name and its children.
\<close>

datatype Node =
    NilNode
  | Text string bool Position
  | LineBreak nat bool Position
  | ExplicitLineBreak Position
  | StatisticToken string Position
  | Timestamp Time bool string Position
  | Emphasis string "Node list" Position
  | InlineBlock string "string list" "Node list" Position
  | LatexFragment string string "Node list" Position
  | FootnoteLink string "FootnoteDefinition option" Position
  | RegularLink string "Node list" string bool Position
  | Macro string "string list" Position
  | Paragraph "Node list" Position
  | FootnoteDefinitionNode FootnoteDefinition
  | ListNode ListKind "Node list" Position
  | ListItem string string string "Node list" Position
  | DescriptiveListItem string string "Node list" "Node list" Position
  | OtherNode string "Node list" Position
and FootnoteDefinition =
    FootnoteDefinition string "Node list" bool Position

subsection \<open>Errors (error.go)\<close>

datatype ErrorType =
    ErrorTypeInvalidSyntax
  | ErrorTypeUnexpectedToken
  | ErrorTypeInvalidStructure
  | ErrorTypeDuplicateNode
  | ErrorTypeMissingNode
  | ErrorTypeValidation
  | ErrorTypeTokenization
  | ErrorTypeIO

text \<open>
  A panic of the Go runtime or of the parser, as a value; and the \<open>error\<close> a diagnostic wraps
  as its cause.
\<close>

datatype panic =
    IndexOutOfRange
  | NilDereference
  | BadListBullet string
  | OtherPanic string

datatype cause =
    NoCause
  | NoLexerMatched string
  | NoLexerMatchedLine int
  | NoParserMatched string
  | RecoveredFromPanic panic
  | ReadError string

record ParseError =
  Type :: ErrorType
  Message :: string
  File :: string
  ErrStartLine :: int
  ErrEndLine :: int
  StartCol :: int
  EndCol :: int
  Token :: token
  Context :: string
  Cause :: cause

subsection \<open>The outline\<close>

text \<open>
  Modelled from the spec: the types \<open>Headline\<close>, \<open>Section\<close> and \<open>Outline\<close> are declared outside
  the three files. A section wraps a headline (none for the root) and its child sections; a
  \<open>*Section\<close> is an index into the list of the sections allocated so far, so a fresh section
  is the next index. The outline holds the root, the cursor \<open>last\<close> (written \<open>last'\<close>) and the visible \<open>count\<close>,
  in the order of the literal \<open>Outline{outlineSection, outlineSection, 0}\<close>.
\<close>

type_synonym ptr = nat

record Headline =
  Lvl :: int
  Title :: "Node list"
  Tags :: "string list"

record Section =
  Headline :: "Headline option"
  Children :: "ptr list"

record Outline =
  root :: ptr
  last' :: ptr
  count :: int

subsection \<open>Configuration and document\<close>

text \<open>
  \<open>Log\<close> and \<open>ReadFile\<close> are left out of the configuration: no function modelled here calls
  them. The document carries the field \<open>FatalError\<close> that error.go reads and writes (the
  struct's declaration does not list it), and the sections its outline points into.
\<close>

record Configuration =
  MaxEmphasisNewLines :: int
  AutoLink :: bool
  DefaultSettings :: "string \<rightharpoonup> string"
  ResolveLink :: "string \<Rightarrow> Node list \<Rightarrow> string \<Rightarrow> Node"

record Document =
  Config :: Configuration
  Path :: string
  tokens :: "token list option"
  baseLvl :: int
  Macros :: "string \<rightharpoonup> string"
  Links :: "string \<rightharpoonup> string"
  Nodes :: "Node list option"
  NamedNodes :: "string \<rightharpoonup> Node"
  Outline :: Outline
  BufferSettings :: "string \<rightharpoonup> string"
  Errors :: "ParseError list"
  Pos :: Position
  FatalError :: "ParseError option"
  sections :: "Section list"

text \<open>\<open>New\<close>: the default configuration.\<close>

definition New :: Configuration where
  "New = \<lparr>MaxEmphasisNewLines = 1, AutoLink = True,
     DefaultSettings = [''TODO'' \<mapsto> ''TODO | DONE'', ''EXCLUDE_TAGS'' \<mapsto> ''noexport'',
       ''OPTIONS'' \<mapsto> ''toc:t <:t e:t f:t pri:t todo:t tags:t title:t ealb:nil''],
     ResolveLink = (\<lambda>protocol description link. RegularLink protocol description link False noPosition)\<rparr>"

definition Get :: "Document \<Rightarrow> string \<Rightarrow> string" where
  "Get d key =
     (case BufferSettings d key of
        Some v \<Rightarrow> v
      | None \<Rightarrow> (case DefaultSettings (Config d) key of Some v \<Rightarrow> v | None \<Rightarrow> []))"

definition NewParseError :: "ErrorType \<Rightarrow> string \<Rightarrow> string \<Rightarrow> Position \<Rightarrow> token \<Rightarrow> cause \<Rightarrow> ParseError" where
  "NewParseError typ message file pos tok cause =
     \<lparr>Type = typ, Message = message, File = file,
      ErrStartLine = StartLine pos, ErrEndLine = EndLine pos,
      StartCol = StartColumn pos, EndCol = EndColumn pos,
      Token = tok, Context = [], Cause = cause\<rparr>"

definition AddError :: "Document \<Rightarrow> ErrorType \<Rightarrow> string \<Rightarrow> Position \<Rightarrow> token \<Rightarrow> cause \<Rightarrow> Document" where
  "AddError d typ message pos tok cause =
     d\<lparr>Errors := Errors d @ [NewParseError typ message (Path d) pos tok cause]\<rparr>"

definition HasErrors :: "Document \<Rightarrow> bool" where
  "HasErrors d = (0 < length (Errors d))"

definition HasFatalError :: "Document \<Rightarrow> bool" where
  "HasFatalError d = (FatalError d \<noteq> None)"

definition AddFatalError :: "Document \<Rightarrow> ErrorType \<Rightarrow> string \<Rightarrow> Position \<Rightarrow> token \<Rightarrow> cause \<Rightarrow> Document" where
  "AddFatalError d typ message pos tok cause =
     (let err = NewParseError typ message (Path d) pos tok cause
      in d\<lparr>FatalError := Some err, Errors := Errors d @ [err]\<rparr>)"

definition ErrorCount :: "Document \<Rightarrow> nat" where
  "ErrorCount d = length (Errors d)"

definition GetErrorByType :: "Document \<Rightarrow> ErrorType \<Rightarrow> ParseError list" where
  "GetErrorByType d typ = filter (\<lambda>err. Type err = typ) (Errors d)"

definition getPositionFromToken :: "token \<Rightarrow> Position" where
  "getPositionFromToken tok =
     \<lparr>StartLine = line tok, StartColumn = startCol tok, EndLine = line tok, EndColumn = endCol tok\<rparr>"

section \<open>The outline builder\<close>

text \<open>
  Modelled from the spec: \<open>Section.add\<close> is defined outside the three files; the spec has
  \<open>addHeadline\<close> append the new section as a child of the cursor section. \<open>None\<close> is the
  dereference of a pointer to no section.
\<close>

definition Section_add :: "Section list \<Rightarrow> ptr \<Rightarrow> ptr \<Rightarrow> Section list option" where
  "Section_add h parent current =
     (if parent < length h
      then Some (h[parent := (h ! parent)\<lparr>Children := Children (h ! parent) @ [current]\<rparr>])
      else None)"

text \<open>
  \<open>addHeadline\<close> (part_000, lines 319-327). \<open>Headline.IsExcluded\<close> is defined outside the
  three files and is a parameter here.
\<close>

definition addHeadline :: "(Headline \<Rightarrow> Document \<Rightarrow> bool) \<Rightarrow> Document \<Rightarrow> Headline \<Rightarrow> panic + Document \<times> int" where
  "addHeadline IsExcluded d headline =
     (let current = length (sections d);
          h = sections d @ [\<lparr>Headline = Some headline, Children = []\<rparr>]
      in case Section_add h (last' (Outline d)) current of
           None \<Rightarrow> Inl NilDereference
         | Some h' \<Rightarrow>
             (let d1 = d\<lparr>sections := h'\<rparr>;
                  d2 = (if \<not> IsExcluded headline d1
                        then d1\<lparr>Outline := (Outline d1)\<lparr>count := count (Outline d1) + 1\<rparr>\<rparr>
                        else d1);
                  d3 = d2\<lparr>Outline := (Outline d2)\<lparr>last' := current\<rparr>\<rparr>
              in Inr (d3, count (Outline d3))))"

text \<open>A section is linked into the tree when a path of \<open>Children\<close> leads from the root to it.\<close>

inductive linked :: "Section list \<Rightarrow> ptr \<Rightarrow> ptr \<Rightarrow> bool" where
  linked_root: "r < length h \<Longrightarrow> linked h r r"
| linked_child: "linked h r p \<Longrightarrow> q \<in> set (Children (h ! p)) \<Longrightarrow> q < length h \<Longrightarrow> linked h r q"


text \<open>
  The sections after a headline is added at the cursor \<open>cur\<close>: one more section at the end,
  and its index appended to the children of the section at \<open>cur\<close>.
\<close>

definition addedSection :: "Section list \<Rightarrow> ptr \<Rightarrow> Headline \<Rightarrow> Section list" where
  "addedSection h cur hl =
     (h @ [\<lparr>Headline = Some hl, Children = []\<rparr>])
       [cur := (h ! cur)\<lparr>Children := Children (h ! cur) @ [length h]\<rparr>]"

section \<open>The parse session\<close>

text \<open>
  The document \<open>Parse\<close> creates (part_000, lines 167-176): \<open>outlineSection\<close> is the one
  section allocated, the root and the cursor of the outline.
\<close>

definition newDocument :: "Configuration \<Rightarrow> string \<Rightarrow> Document" where
  "newDocument c path =
     \<lparr>Config = c, Path = path, tokens = None, baseLvl = 0, Macros = Map.empty,
      Links = Map.empty, Nodes = None, NamedNodes = Map.empty,
      Outline = \<lparr>root = 0, last' = 0, count = 0\<rparr>,
      BufferSettings = Map.empty, Errors = [], Pos = noPosition, FatalError = None,
      sections = [\<lparr>Headline = None, Children = []\<rparr>]\<rparr>"

section \<open>The inline parser (inline.go)\<close>

definition validURLCharacters :: string where
  "validURLCharacters =
     ''ABCDEFGHIJKLMNOPQRSTUVWXYZabcdefghijklmnopqrstuvwxyz0123456789-._~:/?#[]@!$&''
       @ [CHR 0x27] @ ''()*+,;=''"

definition latexFragmentPairs :: "string \<rightharpoonup> string" where
  "latexFragmentPairs =
     [[backslash, CHR ''(''] \<mapsto> [backslash, CHR '')''],
      [backslash, CHR ''[''] \<mapsto> [backslash, CHR '']''],
      ''$$'' \<mapsto> ''$$'',
      ''$'' \<mapsto> ''$'']"

text \<open>
  \<open>calculatePosition\<close> walks over the first \<open>charOffset\<close> bytes of the input (none for a
  negative offset); \<open>positionFromChars\<close> spans two offsets.
\<close>

definition calculatePosition :: "string \<Rightarrow> int \<Rightarrow> int \<Rightarrow> int \<Rightarrow> Position" where
  "calculatePosition input startLine startColumn charOffset =
     (let (ln, col) =
            foldl (\<lambda>(ln, col) c. if c = newline then (ln + 1, 1) else (ln, col + 1))
                  (startLine, startColumn) (take (nat charOffset) input)
      in \<lparr>StartLine = ln, StartColumn = col, EndLine = ln, EndColumn = col\<rparr>)"

definition positionFromChars :: "string \<Rightarrow> int \<Rightarrow> int \<Rightarrow> int \<Rightarrow> int \<Rightarrow> Position" where
  "positionFromChars input startLine startColumn startOffset endOffset =
     (let start = calculatePosition input startLine startColumn startOffset;
          fin = calculatePosition input startLine startColumn endOffset
      in \<lparr>StartLine = StartLine start, StartColumn = StartColumn start,
          EndLine = StartLine fin, EndColumn = StartColumn fin\<rparr>)"

subsection \<open>Line breaks and raw inline text\<close>

definition parseLineBreakWithPos :: "string \<Rightarrow> nat \<Rightarrow> int \<Rightarrow> int \<Rightarrow> nat \<times> Node" where
  "parseLineBreakWithPos input start startLine startColumn =
     (let i = start + length (takeWhile (\<lambda>c. c = newline) (drop start input));
          beforeLen = snd (DecodeLastRuneInString (take start input));
          afterLen = snd (DecodeRuneInString (drop i input));
          consumed = i - start;
          pos = positionFromChars input startLine startColumn (int start) (int (start + consumed))
      in (consumed, LineBreak consumed (beforeLen > 1 \<and> afterLen > 1) pos))"

text \<open>
  The loop of \<open>parseRawInlineWithPos\<close> (lines 203-216). The last argument is what is left
  of the input from \<open>current\<close> on, so its head is \<open>input[current]\<close>: the loop ends when it
  is empty, moves one byte on, or drops the bytes the line break consumed.
\<close>

fun parseRawInlineLoop :: "string \<Rightarrow> int \<Rightarrow> int \<Rightarrow> nat \<Rightarrow> nat \<Rightarrow> Node list \<Rightarrow> string \<Rightarrow> Node list" where
  "parseRawInlineLoop input startLine startColumn previous current nodes [] =
     (if previous < length input
      then nodes @ [Text (drop previous input) True
             (positionFromChars input startLine startColumn (int previous) (int (length input)))]
      else nodes)"
| "parseRawInlineLoop input startLine startColumn previous current nodes (c # rest) =
     (if c = newline then
        (let r = parseLineBreakWithPos input current startLine startColumn;
             consumed = fst r;
             node = snd r;
             nodes1 = (if current > previous
                       then nodes @ [Text (slice input previous current) True
                              (positionFromChars input startLine startColumn (int previous) (int current))]
                       else nodes);
             nodes2 = nodes1 @ [node];
             current' = current + consumed
         in parseRawInlineLoop input startLine startColumn current' current' nodes2
              (drop (consumed - 1) rest))
      else parseRawInlineLoop input startLine startColumn previous (current + 1) nodes rest)"

definition parseRawInlineWithPos :: "string \<Rightarrow> int \<Rightarrow> int \<Rightarrow> Node list" where
  "parseRawInlineWithPos input startLine startColumn =
     parseRawInlineLoop input startLine startColumn 0 0 [] input"

definition parseRawInline :: "string \<Rightarrow> Node list" where
  "parseRawInline input = parseRawInlineWithPos input 0 0"

subsection \<open>The sub-scanners that do not recurse\<close>

text \<open>
  Each returns the count of bytes it consumed (\<open>0\<close>: no match) and its node; the scanners
  that can step back before the trigger return the rewind first.
\<close>

definition parseInlineBlockWithPos :: "string \<Rightarrow> nat \<Rightarrow> int \<Rightarrow> int \<Rightarrow> nat \<times> nat \<times> Node" where
  "parseInlineBlockWithPos input start startLine startColumn =
     (if \<not> (HasSuffix (take start input) ''src''
              \<and> (start < 4 \<or> IsSpace (byte (input ! (start - 4)))))
      then (0, 0, NilNode)
      else
        (case FindStringSubmatch inlineBlockRegexp (drop (start - 3) input) of
           Some m \<Rightarrow>
             (let consumed = length (m ! 0);
                  pos = positionFromChars input startLine startColumn (int start - 3) (int (start + consumed))
              in (3, consumed,
                  InlineBlock ''src'' (Fields (m ! 1 @ '' '' @ m ! 3)) (parseRawInline (m ! 4)) pos))
         | None \<Rightarrow> (0, 0, NilNode)))"

definition parseInlineExportBlockWithPos :: "string \<Rightarrow> nat \<Rightarrow> int \<Rightarrow> int \<Rightarrow> nat \<times> Node" where
  "parseInlineExportBlockWithPos input start startLine startColumn =
     (case FindStringSubmatch inlineExportBlockRegexp (drop start input) of
        Some m \<Rightarrow>
          (let consumed = length (m ! 0);
               pos = positionFromChars input startLine startColumn (int start) (int (start + consumed))
           in (consumed, InlineBlock ''export'' [m ! 1] (parseRawInline (m ! 2)) pos))
      | None \<Rightarrow> (0, NilNode))"

definition parseLatexFragmentWithPos :: "string \<Rightarrow> nat \<Rightarrow> nat \<Rightarrow> int \<Rightarrow> int \<Rightarrow> nat \<times> Node" where
  "parseLatexFragmentWithPos input start pairLength0 startLine startColumn =
     (if start + 2 \<ge> length input then (0, NilNode)
      else
        (let pairLength = (if pairLength0 = 1 \<and> slice input start (start + 2) = ''$$''
                           then 2 else pairLength0);
             openingPair = slice input start (start + pairLength);
             closingPair = (case latexFragmentPairs openingPair of Some c \<Rightarrow> c | None \<Rightarrow> [])
         in case IndexFrom (drop (start + pairLength) input) closingPair 0 of
              Some i \<Rightarrow>
                (let content = parseRawInline (slice input (start + pairLength) (start + pairLength + i));
                     consumed = i + pairLength + pairLength;
                     pos = positionFromChars input startLine startColumn (int start) (int (start + consumed))
                 in (consumed, LatexFragment openingPair closingPair content pos))
            | None \<Rightarrow> (0, NilNode)))"

definition parseExplicitLineBreakOrLatexFragmentWithPos :: "string \<Rightarrow> nat \<Rightarrow> int \<Rightarrow> int \<Rightarrow> nat \<times> Node" where
  "parseExplicitLineBreakOrLatexFragmentWithPos input start startLine startColumn =
     (if start + 2 \<ge> length input then (0, NilNode)
      else if input ! (start + 1) = backslash \<and> start \<noteq> 0 \<and> input ! (start - 1) \<noteq> newline then
        (let i = start + 2
                   + length (takeWhile (\<lambda>c. IsSpace (byte c) \<and> c \<noteq> newline) (drop (start + 2) input))
         in if i < length input \<and> input ! i = newline
            then (let consumed = i + 1 - start;
                      pos = positionFromChars input startLine startColumn (int start) (int (start + consumed))
                  in (consumed, ExplicitLineBreak pos))
            else (0, NilNode))
      else if input ! (start + 1) = CHR ''('' \<or> input ! (start + 1) = CHR ''['' then
        parseLatexFragmentWithPos input start 2 startLine startColumn
      else if Index (drop start input) (backslash # ''begin{'') = 0 then
        (case FindStringSubmatch latexFragmentRegexp (drop start input) of
           Some m \<Rightarrow>
             (let opn = m ! 1; content = m ! 2; cls = m ! 3 in
              if opn = cls then
                (let openingPair = backslash # ''begin{'' @ opn @ ''}'';
                     closingPair = backslash # ''end{'' @ cls @ ''}'';
                     i = Index (drop start input) closingPair;
                     consumed = nat (i + int (length closingPair));
                     pos = positionFromChars input startLine startColumn (int start) (int (start + consumed))
                 in (consumed, LatexFragment openingPair closingPair (parseRawInline content) pos))
              else (0, NilNode))
         | None \<Rightarrow> (0, NilNode))
      else (0, NilNode))"

definition parseSubOrSuperScriptWithPos :: "string \<Rightarrow> nat \<Rightarrow> int \<Rightarrow> int \<Rightarrow> nat \<times> Node" where
  "parseSubOrSuperScriptWithPos input start startLine startColumn =
     (case FindStringSubmatch subScriptSuperScriptRegexp (drop start input) of
        Some m \<Rightarrow>
          (let consumed = length (m ! 2) + 3;
               pos = positionFromChars input startLine startColumn (int start) (int (start + consumed));
               contentPos = positionFromChars input startLine startColumn (int (start + 2))
                              (int (start + 2 + length (m ! 2)));
               content = [Text (m ! 2) False contentPos]
           in (consumed, Emphasis (m ! 1 @ ''{}'') content pos))
      | None \<Rightarrow> (0, NilNode))"

definition parseMacroWithPos :: "string \<Rightarrow> nat \<Rightarrow> int \<Rightarrow> int \<Rightarrow> nat \<times> Node" where
  "parseMacroWithPos input start startLine startColumn =
     (case FindStringSubmatch macroRegexp (drop start input) of
        Some m \<Rightarrow>
          (let consumed = length (m ! 0);
               pos = positionFromChars input startLine startColumn (int start) (int (start + consumed))
           in (consumed, Macro (m ! 1) (Split (m ! 2) '','') pos))
      | None \<Rightarrow> (0, NilNode))"

definition parseStatisticTokenWithPos :: "string \<Rightarrow> nat \<Rightarrow> int \<Rightarrow> int \<Rightarrow> nat \<times> Node" where
  "parseStatisticTokenWithPos input start startLine startColumn =
     (case FindStringSubmatch statisticsTokenRegexp (drop start input) of
        Some m \<Rightarrow>
          (let consumed = length (m ! 1) + 2;
               pos = positionFromChars input startLine startColumn (int start) (int (start + consumed))
           in (consumed, StatisticToken (m ! 1) pos))
      | None \<Rightarrow> (0, NilNode))"

text \<open>
  \<open>parseAutoLinkWithPos\<close>. \<open>protocolStartOf\<close> is its backward loop: from \<open>start - 1\<close> down to
  index 1 it stops just after the first byte that is not a letter; index 0 is never read.
\<close>

primrec protocolStartOf :: "string \<Rightarrow> nat \<Rightarrow> nat" where
  "protocolStartOf input 0 = 0"
| "protocolStartOf input (Suc k) =
     (if \<not> IsLetter (byte (input ! Suc k)) then Suc (Suc k) else protocolStartOf input k)"

definition parseAutoLinkWithPos :: "Document \<Rightarrow> string \<Rightarrow> nat \<Rightarrow> int \<Rightarrow> int \<Rightarrow> nat \<times> nat \<times> Node" where
  "parseAutoLinkWithPos d input start startLine startColumn =
     (if \<not> AutoLink (Config d) \<or> start = 0 \<or> length (drop start input) < 3
         \<or> slice input start (start + 3) \<noteq> ''://''
      then (0, 0, NilNode)
      else
        (let protocolStart = protocolStartOf input (start - 1) in
         case FindStringSubmatch autolinkProtocols (slice input protocolStart start) of
           None \<Rightarrow> (0, 0, NilNode)
         | Some m \<Rightarrow>
             (let protocol = m ! 1;
                  fin = start + length (takeWhile (\<lambda>c. ContainsRune validURLCharacters (byte c))
                                          (drop start input));
                  path = slice input start fin
              in if path = ''://'' then (0, 0, NilNode)
                 else
                   (let pos = positionFromChars input startLine startColumn
                                (int start - int (length protocol)) (int (start + length path))
                    in (length protocol, length (path @ protocol),
                        RegularLink protocol [] (protocol @ path) True pos)))))"

definition parseAutoLink :: "Document \<Rightarrow> string \<Rightarrow> nat \<Rightarrow> nat \<times> nat \<times> Node" where
  "parseAutoLink d input start = parseAutoLinkWithPos d input start 0 0"

text \<open>
  \<open>parseTimestampWithPos\<close>. \<open>parseTime\<close> is \<open>time.Parse\<close> with the layout
  \<open>2006-01-02 Mon 15:04\<close> on the date and the time the pattern let through: it fails when
  the month, the day of that month, the hour or the minute is out of range.
\<close>

definition atoi :: "string \<Rightarrow> int" where
  "atoi s = foldl (\<lambda>n c. 10 * n + (byte c - 0x30)) 0 s"

definition daysIn :: "int \<Rightarrow> int \<Rightarrow> int" where
  "daysIn month year =
     (if month = 2 then (if year mod 4 = 0 \<and> (year mod 100 \<noteq> 0 \<or> year mod 400 = 0) then 29 else 28)
      else if month = 4 \<or> month = 6 \<or> month = 9 \<or> month = 11 then 30 else 31)"

definition parseTime :: "string \<Rightarrow> string \<Rightarrow> Time option" where
  "parseTime ddmmyy hhmm =
     (let year = atoi (take 4 ddmmyy); month = atoi (slice ddmmyy 5 7); day = atoi (slice ddmmyy 8 10);
          t = dropWhile (\<lambda>c. c = CHR '' '') hhmm;
          hour = atoi (take 2 t); minute = atoi (slice t 3 5)
      in if 1 \<le> month \<and> month \<le> 12 \<and> 1 \<le> day \<and> day \<le> daysIn month year \<and> hour < 24 \<and> minute < 60
         then Some (Time year month day hour minute) else None)"

definition parseTimestampWithPos :: "string \<Rightarrow> nat \<Rightarrow> int \<Rightarrow> int \<Rightarrow> nat \<times> Node" where
  "parseTimestampWithPos input start startLine startColumn =
     (case FindStringSubmatch timestampRegexp (drop start input) of
        Some m \<Rightarrow>
          (let ddmmyy = m ! 1; interval = TrimSpace (m ! 4);
               isDate = (m ! 3 = []);
               hhmm = (if m ! 3 = [] then ''00:00'' else m ! 3)
           in case parseTime ddmmyy hhmm of
                None \<Rightarrow> (0, NilNode)
              | Some t \<Rightarrow>
                  (let consumed = length (m ! 0);
                       pos = positionFromChars input startLine startColumn (int start) (int (start + consumed))
                   in (consumed, Timestamp t isDate interval pos)))
      | None \<Rightarrow> (0, NilNode))"

subsection \<open>Emphasis\<close>

definition prevRune :: "string \<Rightarrow> nat \<Rightarrow> rune" where
  "prevRune input i = fst (DecodeLastRuneInString (take i input))"

definition nextRune :: "string \<Rightarrow> nat \<Rightarrow> rune" where
  "nextRune input i =
     (let c = snd (DecodeRuneInString (drop i input))
      in fst (DecodeRuneInString (drop (i + c) input)))"

definition isValidPreChar :: "rune \<Rightarrow> bool" where
  "isValidPreChar r = (r = RuneError \<or> IsSpace r \<or> ContainsRune (''-({'' @ [CHR 0x27, CHR 0x22]) r)"

definition isValidPostChar :: "rune \<Rightarrow> bool" where
  "isValidPostChar r =
     (r = RuneError \<or> IsSpace r
      \<or> ContainsRune (''-.,:!?;'' @ [CHR 0x27, CHR 0x22] @ '')}['' @ [backslash]) r)"

definition isValidBorderChar :: "rune \<Rightarrow> bool" where
  "isValidBorderChar r = (\<not> IsSpace r)"

definition hasValidPreAndBorderChars :: "string \<Rightarrow> nat \<Rightarrow> bool" where
  "hasValidPreAndBorderChars input i =
     (isValidBorderChar (nextRune input i) \<and> isValidPreChar (prevRune input i))"

definition hasValidPostAndBorderChars :: "string \<Rightarrow> nat \<Rightarrow> bool" where
  "hasValidPostAndBorderChars input i =
     (isValidPostChar (nextRune input i) \<and> isValidBorderChar (prevRune input i))"

text \<open>
  The loop of \<open>parseEmphasisWithPos\<close> (lines 513-528): from \<open>i\<close> on, while the input lasts and
  at most \<open>MaxEmphasisNewLines\<close> newlines were passed, the first index that holds the marker,
  is not \<open>start + 1\<close> and has valid characters around it. The argument before \<open>i\<close> is what
  is left of the input from \<open>i\<close> on: its head is \<open>input[i]\<close>, and \<open>i < len(input)\<close> fails when
  it is empty.
\<close>

primrec emphasisEnd :: "string \<Rightarrow> char \<Rightarrow> nat \<Rightarrow> int \<Rightarrow> string \<Rightarrow> nat \<Rightarrow> int \<Rightarrow> nat option" where
  "emphasisEnd input marker start maxNewLines [] i consumedNewLines = None"
| "emphasisEnd input marker start maxNewLines (c # rest) i consumedNewLines =
     (if consumedNewLines \<le> maxNewLines then
        (if c = marker \<and> i \<noteq> start + 1 \<and> hasValidPostAndBorderChars input i
         then Some i
         else emphasisEnd input marker start maxNewLines rest (i + 1)
                (if c = newline then consumedNewLines + 1 else consumedNewLines))
      else None)"

subsection \<open>The sub-scanners that parse inline text inside their match\<close>

text \<open>
  Emphasis, links and footnote references call \<open>parseInlineWithPos\<close> on a part of their
  match. They take it as \<open>rec\<close>, the parser with the fuel that is left: \<open>None\<close> is a parse
  that does not return, and it is passed on.

  \<open>parseEmphasisWithPos\<close> (lines 508-541) reads \<open>input[start]\<close> first: outside the input that
  is the panic of an index out of range.
\<close>

type_synonym inlineFn = "string \<Rightarrow> int \<Rightarrow> int \<Rightarrow> Node list option"

definition parseEmphasisWithPos :: "inlineFn \<Rightarrow> Document \<Rightarrow> string \<Rightarrow> nat \<Rightarrow> bool \<Rightarrow> int \<Rightarrow> int
    \<Rightarrow> panic + (nat \<times> Node) option" where
  "parseEmphasisWithPos rec d input start isRaw startLine startColumn =
     (if length input \<le> start then Inl IndexOutOfRange
      else
        (let marker = input ! start; i = start in
         if \<not> hasValidPreAndBorderChars input i then Inr (Some (0, NilNode))
         else
           (case emphasisEnd input marker start (MaxEmphasisNewLines (Config d))
                   (drop (i + 1) input) (i + 1) 0 of
              None \<Rightarrow> Inr (Some (0, NilNode))
            | Some i \<Rightarrow>
                (case (if isRaw then Some (parseRawInline (slice input (start + 1) i))
                       else rec (slice input (start + 1) i) startLine (startColumn + int start + 1)) of
                   None \<Rightarrow> Inr None
                 | Some contents \<Rightarrow>
                     (let pos = positionFromChars input startLine startColumn (int start) (int (i + 1))
                      in Inr (Some (i + 1 - start,
                                    Emphasis (slice input start (start + 1)) contents pos)))))))"

text \<open>
  In the scan a sub-scanner that does not return ends the scan: \<open>returned\<close> passes a panic
  on as no result. The scan calls \<open>parseEmphasisWithPos\<close> at an index inside the input only.
\<close>

definition returned :: "panic + 'a option \<Rightarrow> 'a option" where
  "returned r = (case r of Inl p \<Rightarrow> None | Inr v \<Rightarrow> v)"

definition parseRegularLinkWithPos :: "inlineFn \<Rightarrow> Document \<Rightarrow> string \<Rightarrow> nat \<Rightarrow> int \<Rightarrow> int \<Rightarrow> (nat \<times> Node) option" where
  "parseRegularLinkWithPos rec d input0 start startLine startColumn =
     (let input = drop start input0 in
      if length input < 3 \<or> take 2 input \<noteq> ''[['' \<or> input ! 2 = CHR ''['' then Some (0, NilNode)
      else
        (case IndexFrom input '']]'' 0 of
           None \<Rightarrow> Some (0, NilNode)
         | Some fin \<Rightarrow>
             (let rawLinkParts = Split (slice input 2 fin) ''][''; link = rawLinkParts ! 0 in
              case (if length rawLinkParts = 2
                    then rec (rawLinkParts ! 1) startLine (startColumn + int start + 2)
                    else Some []) of
                None \<Rightarrow> None
              | Some description \<Rightarrow>
                  if ContainsRune link (byte newline) then Some (0, NilNode)
                  else
                    (let consumed = fin + 2;
                         linkParts = SplitN2 link '':'';
                         protocol = (if length linkParts = 2 then linkParts ! 0 else []);
                         pos = positionFromChars input startLine startColumn (int start) (int (start + consumed));
                         linkNode = ResolveLink (Config d) protocol description link
                     in case linkNode of
                          RegularLink p ds u a _ \<Rightarrow> Some (consumed, RegularLink p ds u a pos)
                        | _ \<Rightarrow> Some (consumed, linkNode)))))"

definition parseFootnoteReferenceWithPos :: "inlineFn \<Rightarrow> Document \<Rightarrow> string \<Rightarrow> nat \<Rightarrow> int \<Rightarrow> int \<Rightarrow> (nat \<times> Node) option" where
  "parseFootnoteReferenceWithPos rec d input start startLine startColumn =
     (case FindStringSubmatch footnoteRegexp (drop start input) of
        None \<Rightarrow> Some (0, NilNode)
      | Some m \<Rightarrow>
          (let name = m ! 1; defn = m ! 3 in
           if name = [] \<and> defn = [] then Some (0, NilNode)
           else
             (case (if defn \<noteq> []
                    then (case rec defn startLine (startColumn + int start + int (length name) + 5) of
                            None \<Rightarrow> None
                          | Some ns \<Rightarrow>
                              Some (Some (FootnoteDefinition name [Paragraph ns noPosition] True noPosition)))
                    else Some None) of
                None \<Rightarrow> None
              | Some def \<Rightarrow>
                  (let consumed = length (m ! 0);
                       pos = positionFromChars input startLine startColumn (int start) (int (start + consumed))
                   in Some (consumed, FootnoteLink name def pos)))))"

definition parseOpeningBracketWithPos :: "inlineFn \<Rightarrow> Document \<Rightarrow> string \<Rightarrow> nat \<Rightarrow> int \<Rightarrow> int \<Rightarrow> (nat \<times> Node) option" where
  "parseOpeningBracketWithPos rec d input start startLine startColumn =
     (if length (drop start input) \<ge> 2 \<and> input ! start = CHR ''['' \<and> input ! (start + 1) = CHR ''[''
      then parseRegularLinkWithPos rec d input start startLine startColumn
      else if MatchString footnoteRegexp (drop start input)
      then parseFootnoteReferenceWithPos rec d input start startLine startColumn
      else if MatchString statisticsTokenRegexp (drop start input)
      then Some (parseStatisticTokenWithPos input start startLine startColumn)
      else Some (0, NilNode))"

definition parseSubScriptOrEmphasisOrInlineBlockWithPos :: "inlineFn \<Rightarrow> Document \<Rightarrow> string \<Rightarrow> nat \<Rightarrow> int \<Rightarrow> int \<Rightarrow> (nat \<times> nat \<times> Node) option" where
  "parseSubScriptOrEmphasisOrInlineBlockWithPos rec d input start startLine startColumn =
     (let (rewind, consumed, node) = parseInlineBlockWithPos input start startLine startColumn in
      if consumed \<noteq> 0 then Some (rewind, consumed, node)
      else
        (let (consumed, node) = parseSubOrSuperScriptWithPos input start startLine startColumn in
         if consumed \<noteq> 0 then Some (0, consumed, node)
         else
           (case returned (parseEmphasisWithPos rec d input start False startLine startColumn) of
              None \<Rightarrow> None
            | Some (consumed, node) \<Rightarrow> Some (0, consumed, node))))"

subsection \<open>The scan\<close>

text \<open>
  The \<open>switch\<close> of \<open>parseInlineWithPos\<close> (lines 148-173) on the byte at \<open>current\<close>: rewind,
  consumed and node of the sub-scanner the byte triggers.
\<close>

definition noRewind :: "(nat \<times> Node) option \<Rightarrow> (nat \<times> nat \<times> Node) option" where
  "noRewind r = (case r of None \<Rightarrow> None | Some (consumed, node) \<Rightarrow> Some (0, consumed, node))"

definition inlineSwitch :: "inlineFn \<Rightarrow> Document \<Rightarrow> string \<Rightarrow> nat \<Rightarrow> int \<Rightarrow> int \<Rightarrow> (nat \<times> nat \<times> Node) option" where
  "inlineSwitch rec d input current startLine startColumn =
     (let c = input ! current in
      if c = CHR ''^'' then noRewind (Some (parseSubOrSuperScriptWithPos input current startLine startColumn))
      else if c = CHR ''_'' then parseSubScriptOrEmphasisOrInlineBlockWithPos rec d input current startLine startColumn
      else if c = CHR ''@'' then noRewind (Some (parseInlineExportBlockWithPos input current startLine startColumn))
      else if c = CHR ''*'' \<or> c = CHR ''/'' \<or> c = CHR ''+''
        then noRewind (returned (parseEmphasisWithPos rec d input current False startLine startColumn))
      else if c = CHR ''='' \<or> c = CHR ''~''
        then noRewind (returned (parseEmphasisWithPos rec d input current True startLine startColumn))
      else if c = CHR ''['' then noRewind (parseOpeningBracketWithPos rec d input current startLine startColumn)
      else if c = CHR ''{'' then noRewind (Some (parseMacroWithPos input current startLine startColumn))
      else if c = CHR ''<'' then noRewind (Some (parseTimestampWithPos input current startLine startColumn))
      else if c = backslash
        then noRewind (Some (parseExplicitLineBreakOrLatexFragmentWithPos input current startLine startColumn))
      else if c = CHR ''$'' then noRewind (Some (parseLatexFragmentWithPos input current 1 startLine startColumn))
      else if c = newline then noRewind (Some (parseLineBreakWithPos input current startLine startColumn))
      else if c = CHR '':'' then Some (parseAutoLink d input current)
      else Some (0, 0, NilNode))"

text \<open>
  The loop of \<open>parseInlineWithPos\<close> (lines 145-194), one unit of fuel for every iteration,
  the same fuel bounding the nesting; \<open>None\<close> when the fuel runs out or a sub-scanner does
  not return. The loop advances by
  at least one byte in every iteration and a nested parse works on a shorter text, so
  \<open>parseInlineWithPos\<close> starts it with one unit more than the input has bytes.
\<close>

primrec parseInlineLoop :: "nat \<Rightarrow> Document \<Rightarrow> string \<Rightarrow> int \<Rightarrow> int \<Rightarrow> nat \<Rightarrow> nat \<Rightarrow> Node list \<Rightarrow> Node list option" where
  "parseInlineLoop 0 d input startLine startColumn previous current nodes = None"
| "parseInlineLoop (Suc fuel) d input startLine startColumn previous current nodes =
     (if current < length input then
        (case inlineSwitch (\<lambda>text l c. parseInlineLoop fuel d text l c 0 0 []) d input current
                startLine startColumn of
           None \<Rightarrow> None
         | Some (rewind, consumed, node) \<Rightarrow>
             (let current = current - rewind in
              if consumed \<noteq> 0 then
                (let nodes1 = (if current > previous
                               then nodes @ [Text (slice input previous current) False
                                      (positionFromChars input startLine startColumn (int previous) (int current))]
                               else nodes);
                     nodes2 = (if node \<noteq> NilNode then nodes1 @ [node] else nodes1);
                     current' = current + consumed
                 in parseInlineLoop fuel d input startLine startColumn current' current' nodes2)
              else parseInlineLoop fuel d input startLine startColumn previous (current + 1) nodes))
      else Some (if previous < length input
                 then nodes @ [Text (drop previous input) False
                        (positionFromChars input startLine startColumn (int previous) (int (length input)))]
                 else nodes))"

definition parseInlineWithPos :: "Document \<Rightarrow> string \<Rightarrow> int \<Rightarrow> int \<Rightarrow> Node list option" where
  "parseInlineWithPos d input startLine startColumn =
     parseInlineLoop (Suc (length input)) d input startLine startColumn 0 0 []"

definition parseInline :: "Document \<Rightarrow> string \<Rightarrow> Node list option" where
  "parseInline d input = parseInlineWithPos d input 0 0"

subsection \<open>The emphasis rule, stated\<close>

text \<open>
  The number of newlines in \<open>input[a:b]\<close>; a closing marker for the marker at \<open>start\<close>, as the
  loop tests it; and the rule as a whole: the marker at \<open>start\<close> and a closing marker at \<open>j\<close>
  with valid characters around both and at most \<open>MaxEmphasisNewLines\<close> newlines between.
\<close>

definition newlinesIn :: "string \<Rightarrow> nat \<Rightarrow> nat \<Rightarrow> nat" where
  "newlinesIn input a b = length (filter (\<lambda>c. c = newline) (slice input a b))"

definition closesAt :: "string \<Rightarrow> nat \<Rightarrow> nat \<Rightarrow> bool" where
  "closesAt input start j =
     (j < length input \<and> input ! j = input ! start \<and> j \<noteq> start + 1
      \<and> hasValidPostAndBorderChars input j)"

definition emphasisMatches :: "Document \<Rightarrow> string \<Rightarrow> nat \<Rightarrow> nat \<Rightarrow> bool" where
  "emphasisMatches d input start j =
     (isValidPreChar (prevRune input start) \<and> isValidBorderChar (nextRune input start)
      \<and> start + 1 < j \<and> j < length input \<and> input ! j = input ! start
      \<and> isValidBorderChar (prevRune input j) \<and> isValidPostChar (nextRune input j)
      \<and> int (newlinesIn input (start + 1) j) \<le> MaxEmphasisNewLines (Config d))"

definition dquote :: char where
  "dquote = CHR 0x22"

section \<open>The tokenizer and the block parser (part_000, and the footnotes and lists)\<close>

text \<open>
  A call of a parser ends in one of three ways: it returns, with the document as it left
  it; it panics, with the document as it was at the panic; or it does not end within the
  fuel it was given.
\<close>

datatype 'a res = OutOfFuel | Panicked panic Document | Ret Document 'a

type_synonym stopFn = "Document \<Rightarrow> int \<Rightarrow> panic + bool"
type_synonym parseFn = "Document \<Rightarrow> int \<Rightarrow> stopFn \<Rightarrow> (int \<times> Node) res"
type_synonym lexFn = "string \<Rightarrow> token option"

text \<open>
  What is defined outside the three files is a parameter: ten of the twelve line matchers,
  \<open>isSecondBlankLine\<close>, and eleven of the parsers \<open>parseOne\<close> dispatches to, each any function
  of the document, the token index and the stop predicate.
\<close>

record ext =
  lexHeadline :: lexFn
  lexDrawer :: lexFn
  lexBlock :: lexFn
  lexResult :: lexFn
  lexTable :: lexFn
  lexHorizontalRule :: lexFn
  lexKeywordOrComment :: lexFn
  lexExample :: lexFn
  lexLatexBlock :: lexFn
  lexText :: lexFn
  isSecondBlankLine :: "Document \<Rightarrow> int \<Rightarrow> panic + bool"
  parseTable :: parseFn
  parseBlock :: parseFn
  parseLatexBlock :: parseFn
  parseResult :: parseFn
  parseDrawer :: parseFn
  parseParagraph :: parseFn
  parseExample :: parseFn
  parseHorizontalRule :: parseFn
  parseComment :: parseFn
  parseKeyword :: parseFn
  parseHeadline :: parseFn

text \<open>
  Modelled from the spec: \<open>plainTextRegexp\<close> is declared outside the three files; the spec has
  the generic plain-text pattern extract the indentation and the content of a line, which
  is \<open>^(\s*)(.*)\<close>.
\<close>

definition plainTextRegexp :: regexp where
  "plainTextRegexp = \<lparr>anchored = True,
     body = cats [Grp 1 (starOf spacec), Grp 2 (starOf dot)],
     groups = 2\<rparr>"

text \<open>
  What the pattern finds in a line, in closed form: the whole match, the white space at the
  front, and the rest up to the first newline.
\<close>

definition plainMatch :: "string \<Rightarrow> string list" where
  "plainMatch s = [takeWhile spacec s @ takeWhile dot (dropWhile spacec s),
                   takeWhile spacec s, takeWhile dot (dropWhile spacec s)]"

subsection \<open>Token access\<close>

text \<open>
  \<open>d.tokens[i]\<close> and \<open>m[k]\<close> panic when the index is out of range; \<open>None\<close> is that panic.
\<close>

definition toks :: "Document \<Rightarrow> token list" where
  "toks d = (case tokens d of None \<Rightarrow> [] | Some ts \<Rightarrow> ts)"

definition tokenAt :: "Document \<Rightarrow> int \<Rightarrow> token option" where
  "tokenAt d i = (if 0 \<le> i \<and> i < int (length (toks d)) then Some (toks d ! nat i) else None)"

definition setToken :: "Document \<Rightarrow> int \<Rightarrow> token \<Rightarrow> Document" where
  "setToken d i t = d\<lparr>tokens := Some ((toks d)[nat i := t])\<rparr>"

definition strAt :: "string list \<Rightarrow> nat \<Rightarrow> string option" where
  "strAt m k = (if k < length m then Some (m ! k) else None)"

subsection \<open>The line matchers\<close>

definition lexList :: lexFn where
  "lexList ln =
     (case FindStringSubmatch unorderedListRegexp ln of
        Some m \<Rightarrow> Some (mkToken ''unorderedList'' (int (length (m ! 1))) (m ! 4) m)
      | None \<Rightarrow>
          (case FindStringSubmatch orderedListRegexp ln of
             Some m \<Rightarrow> Some (mkToken ''orderedList'' (int (length (m ! 1))) (m ! 5) m)
           | None \<Rightarrow> None))"

definition lexFootnoteDefinition :: lexFn where
  "lexFootnoteDefinition ln =
     (case FindStringSubmatch footnoteDefinitionRegexp ln of
        Some m \<Rightarrow> Some (mkToken ''footnoteDefinition'' 0 (m ! 1) m)
      | None \<Rightarrow> None)"

definition lexFns :: "ext \<Rightarrow> lexFn list" where
  "lexFns x =
     [lexHeadline x, lexDrawer x, lexBlock x, lexResult x, lexList, lexTable x,
      lexHorizontalRule x, lexKeywordOrComment x, lexFootnoteDefinition, lexExample x,
      lexLatexBlock x, lexText x]"

primrec firstMatch :: "lexFn list \<Rightarrow> string \<Rightarrow> token option" where
  "firstMatch [] ln = None"
| "firstMatch (f # fs) ln = (case f ln of Some t \<Rightarrow> Some t | None \<Rightarrow> firstMatch fs ln)"

definition tokenize :: "ext \<Rightarrow> string \<Rightarrow> token \<times> bool" where
  "tokenize x ln = (case firstMatch (lexFns x) ln of Some t \<Rightarrow> (t, True) | None \<Rightarrow> (nilToken, False))"

text \<open>
  \<open>Document.tokenize\<close> (part_000, lines 198-220). The reader is what \<open>bufio.Scanner\<close> makes of
  it: the lines it yields, and how it ends: at the end of the input, with an error of
  \<open>Read\<close>, or with a panic of \<open>Read\<close> (a nil \<open>io.Reader\<close> panics at the first \<open>Read\<close>, before
  any line). A panic leaves the document as the lines before it made it.
\<close>

datatype ending = Eof | ReadErr string | ReadPanic panic

record Reader =
  scanned :: "string list"
  ending :: ending

primrec tokenizeLines :: "ext \<Rightarrow> string list \<Rightarrow> int \<Rightarrow> Document \<Rightarrow> Document \<times> int" where
  "tokenizeLines x [] lineNum d = (d, lineNum)"
| "tokenizeLines x (ln # lns) lineNum d =
     (case tokenize x ln of
        (tok, ok) \<Rightarrow>
          if \<not> ok then
            (let pos = \<lparr>StartLine = lineNum, StartColumn = 1, EndLine = lineNum,
                        EndColumn = int (length ln) + 1\<rparr>
             in tokenizeLines x lns (lineNum + 1)
                  (AddError d ErrorTypeTokenization ''could not lex line'' pos
                     (zeroToken\<lparr>line := lineNum\<rparr>) (NoLexerMatched ln)))
          else
            tokenizeLines x lns (lineNum + 1)
              (d\<lparr>tokens := Some (toks d @ [tok\<lparr>line := lineNum, startCol := 0,
                                               endCol := int (length ln)\<rparr>])\<rparr>))"

definition Document_tokenize :: "ext \<Rightarrow> Document \<Rightarrow> Reader \<Rightarrow> panic \<times> Document + Document" where
  "Document_tokenize x d input =
     (case tokenizeLines x (scanned input) 0 (d\<lparr>tokens := Some []\<rparr>) of
        (d1, lineNum) \<Rightarrow>
          (case ending input of
             ReadPanic p \<Rightarrow> Inl (p, d1)
           | ReadErr err \<Rightarrow>
               Inr (AddError d1 ErrorTypeIO ''tokenization failed''
                      \<lparr>StartLine = lineNum, StartColumn = 0, EndLine = lineNum, EndColumn = 0\<rparr>
                      (zeroToken\<lparr>line := lineNum\<rparr>) (ReadError err))
           | Eof \<Rightarrow> Inr d1))"

subsection \<open>Lists: kinds and stop predicates\<close>

definition isListToken :: "token \<Rightarrow> bool" where
  "isListToken t = (kind t = ''unorderedList'' \<or> kind t = ''orderedList'')"

definition listKind :: "token \<Rightarrow> panic + ListKind \<times> ListKind" where
  "listKind t =
     (case strAt (matches t) 2 of
        None \<Rightarrow> Inl IndexOutOfRange
      | Some bullet \<Rightarrow>
          (case (if bullet = ''*'' \<or> bullet = ''+'' \<or> bullet = ''-'' then Inr UnorderedList
                 else if bullet = [] then Inl IndexOutOfRange
                 else if IsLetter (byte (bullet ! 0)) \<or> IsDigit (byte (bullet ! 0)) then Inr OrderedList
                 else Inl (BadListBullet bullet)) of
             Inl p \<Rightarrow> Inl p
           | Inr mainKind \<Rightarrow>
               if MatchString descriptiveListItemRegexp (content t)
               then Inr (mainKind, DescriptiveList)
               else Inr (mainKind, mainKind)))"

text \<open>The stop predicate of \<open>parseList\<close> (lines 756-762), at the loop's current index.\<close>

definition parseList_stop :: "stopFn \<Rightarrow> int \<Rightarrow> ListKind \<Rightarrow> Document \<Rightarrow> int \<Rightarrow> panic + bool" where
  "parseList_stop parentStop lvl0 listMainKind d i =
     (case parentStop d i of
        Inl p \<Rightarrow> Inl p
      | Inr True \<Rightarrow> Inr True
      | Inr False \<Rightarrow>
          (case tokenAt d i of
             None \<Rightarrow> Inl IndexOutOfRange
           | Some t \<Rightarrow>
               if lvl t \<noteq> lvl0 \<or> \<not> isListToken t then Inr True
               else (case listKind t of
                       Inl p \<Rightarrow> Inl p
                     | Inr (itemMainKind, _) \<Rightarrow> Inr (itemMainKind \<noteq> listMainKind))))"

text \<open>The stop predicate of \<open>parseListItem\<close> (lines 801-807).\<close>

definition parseListItem_stop :: "stopFn \<Rightarrow> int \<Rightarrow> stopFn" where
  "parseListItem_stop parentStop minIndent d i =
     (case parentStop d i of
        Inl p \<Rightarrow> Inl p
      | Inr True \<Rightarrow> Inr True
      | Inr False \<Rightarrow>
          (case tokenAt d i of
             None \<Rightarrow> Inl IndexOutOfRange
           | Some t \<Rightarrow> Inr (lvl t < minIndent \<and> \<not> (kind t = ''text'' \<and> content t = []))))"

text \<open>The stop predicate of \<open>parseFootnoteDefinition\<close> (lines 627-631).\<close>

definition parseFootnoteDefinition_stop :: "ext \<Rightarrow> stopFn \<Rightarrow> int \<Rightarrow> stopFn" where
  "parseFootnoteDefinition_stop x parentStop start d i =
     (case parentStop d i of
        Inl p \<Rightarrow> Inl p
      | Inr True \<Rightarrow> Inr True
      | Inr False \<Rightarrow>
          (case isSecondBlankLine x d i of
             Inl p \<Rightarrow> Inl p
           | Inr b \<Rightarrow>
               if b \<and> i > start + 1 then Inr True
               else (case tokenAt d i of
                       None \<Rightarrow> Inl IndexOutOfRange
                     | Some t \<Rightarrow> Inr (kind t = ''headline'' \<or> kind t = ''footnoteDefinition''))))"

text \<open>The loop condition of \<open>parseListItem\<close> (line 808).\<close>

definition parseListItem_continues :: "ext \<Rightarrow> stopFn \<Rightarrow> int \<Rightarrow> Document \<Rightarrow> int \<Rightarrow> panic + bool" where
  "parseListItem_continues x stop start d i =
     (case stop d i of
        Inl p \<Rightarrow> Inl p
      | Inr True \<Rightarrow> Inr False
      | Inr False \<Rightarrow>
          if i \<le> start + 1 then Inr True
          else (case isSecondBlankLine x d i of Inl p \<Rightarrow> Inl p | Inr b \<Rightarrow> Inr (\<not> b)))"

text \<open>
  The position a list and its items get (lines 768-773, 816-821, 825-830): from the token
  at \<open>start\<close> to the token at \<open>i - 1\<close>.
\<close>

definition spanOf :: "Document \<Rightarrow> int \<Rightarrow> int \<Rightarrow> Position option" where
  "spanOf d start i =
     (case tokenAt d start of
        None \<Rightarrow> None
      | Some s \<Rightarrow>
          (case tokenAt d (i - 1) of
             None \<Rightarrow> None
           | Some e \<Rightarrow>
               Some \<lparr>StartLine = line s, StartColumn = startCol s, EndLine = line e,
                     EndColumn = endCol e\<rparr>))"

subsection \<open>The parsers\<close>

text \<open>
  Lines 782-787 of \<open>parseListItem\<close>: the counter value of an item of an ordered list and
  the checkbox status are taken off the content. Both patterns are searched anywhere in
  the content, and the bytes are dropped from its front.
\<close>

definition stripValueAndStatus :: "ListKind \<Rightarrow> string \<Rightarrow> string \<times> string \<times> string" where
  "stripValueAndStatus lKind content0 =
     (let vc = (case FindStringSubmatch listItemValueRegexp content0 of
                  Some m \<Rightarrow>
                    if lKind = OrderedList
                    then (m ! 1, drop (length ''[@] '' + length (m ! 1)) content0)
                    else ([], content0)
                | None \<Rightarrow> ([], content0));
          content1 = snd vc;
          sc = (case FindStringSubmatch listItemStatusRegexp content1 of
                  Some m \<Rightarrow> (m ! 1, drop (length ''[ ] '') content1)
                | None \<Rightarrow> ([], content1))
      in (fst vc, fst sc, snd sc))"

text \<open>
  The first part of \<open>parseListItem\<close> (lines 778-800), up to its loop: it reads the bullet,
  sets \<open>baseLvl\<close>, strips the counter value, the checkbox and the term off the content, and
  puts the token of the rest in the item's place. It returns the document, the bullet,
  \<open>minIndent\<close>, the term, the status and the value; or the panic and the document then.
\<close>

definition parseListItem_enter :: "ext \<Rightarrow> ListKind \<Rightarrow> Document \<Rightarrow> int
    \<Rightarrow> panic \<times> Document + Document \<times> string \<times> int \<times> string \<times> string \<times> string" where
  "parseListItem_enter x lKind d i =
     (case tokenAt d i of
        None \<Rightarrow> Inl (IndexOutOfRange, d)
      | Some t \<Rightarrow>
          (case strAt (matches t) 2 of
             None \<Rightarrow> Inl (IndexOutOfRange, d)
           | Some bullet \<Rightarrow>
               (let minIndent = lvl t + int (length bullet);
                    d1 = d\<lparr>baseLvl := minIndent + 1\<rparr>;
                    vsc = stripValueAndStatus lKind (content t);
                    val = fst vsc;
                    status = fst (snd vsc);
                    content2 = snd (snd vsc);
                    tc = (if lKind = DescriptiveList
                          then (case FindStringIndex descriptiveListItemRegexp content2 of
                                  Some (a, b) \<Rightarrow>
                                    (take a content2, drop b content2,
                                     d1\<lparr>baseLvl := Index (matches t ! 0) '' ::'' + 4\<rparr>)
                                | None \<Rightarrow> ([], content2, d1))
                          else ([], content2, d1));
                    dterm = fst tc;
                    content3 = fst (snd tc);
                    d2 = snd (snd tc)
                in if minIndent < 0 then Inl (OtherPanic ''strings: negative Repeat count'', d2)
                   else
                     (let tk = tokenize x (Repeat (nat minIndent) @ content3);
                          d3 = setToken d2 i (fst tk);
                          d4 = (if \<not> snd tk
                                then AddError d3 ErrorTypeTokenization ''could not lex line''
                                       (getPositionFromToken (fst tk)) (fst tk)
                                       (NoLexerMatchedLine (line (fst tk)))
                                else d3)
                      in Inr (d4, bullet, minIndent, dterm, status, val)))))"

text \<open>
  The listed cases of the \<open>switch\<close> in \<open>parseOne\<close> that go to a parser defined outside the
  three files; \<open>None\<close> for the kinds the switch does not list.
\<close>

definition otherParser :: "ext \<Rightarrow> string \<Rightarrow> parseFn option" where
  "otherParser x k =
     (if k = ''tableRow'' \<or> k = ''tableSeparator'' then Some (parseTable x)
      else if k = ''beginBlock'' then Some (parseBlock x)
      else if k = ''beginLatexBlock'' then Some (parseLatexBlock x)
      else if k = ''result'' then Some (parseResult x)
      else if k = ''beginDrawer'' then Some (parseDrawer x)
      else if k = ''example'' then Some (parseExample x)
      else if k = ''horizontalRule'' then Some (parseHorizontalRule x)
      else if k = ''comment'' then Some (parseComment x)
      else if k = ''keyword'' then Some (parseKeyword x)
      else if k = ''headline'' then Some (parseHeadline x)
      else None)"

text \<open>
  What \<open>parseOne\<close> does when no parser consumed the token (lines 301-303): it records the
  diagnostic and puts a text token, made by the plain-text pattern from the token's first
  match, in the token's place. \<open>None\<close> is the panic of an index out of range.
\<close>

definition coerceToText :: "Document \<Rightarrow> int \<Rightarrow> panic \<times> Document + Document" where
  "coerceToText d i =
     (case tokenAt d i of
        None \<Rightarrow> Inl (IndexOutOfRange, d)
      | Some t \<Rightarrow>
          (let d1 = AddError d ErrorTypeUnexpectedToken ''could not parse token''
                      (getPositionFromToken t) t (NoParserMatched (kind t))
           in case strAt (matches t) 0 of
                None \<Rightarrow> Inl (IndexOutOfRange, d1)
              | Some m0 \<Rightarrow>
                  (case FindStringSubmatch plainTextRegexp m0 of
                     None \<Rightarrow> Inl (IndexOutOfRange, d1)
                   | Some m \<Rightarrow>
                       Inr (setToken d1 i (mkToken ''text'' (int (length (m ! 1))) (m ! 2) m)))))"

text \<open>
  \<open>parseOne\<close>, \<open>parseMany\<close>, \<open>parseList\<close>, \<open>parseListItem\<close> and \<open>parseFootnoteDefinition\<close>, with
  their loops, call each other. Every call and every loop iteration takes one unit of
  fuel: the body of each function is written over the record \<open>r\<close> of the seven functions
  with the fuel that is left, and \<open>parsersAt\<close> ties them together (with no fuel, none of
  them ends). The lemmas \<open>parseOne_Suc\<close>, \<open>parseManyLoop_Suc\<close>, ... of the section on the
  parsers' equations give them in their usual form.
\<close>

type_synonym loopFn = "stopFn \<Rightarrow> int \<Rightarrow> Document \<Rightarrow> int \<Rightarrow> Node list \<Rightarrow> (int \<times> Node list) res"

record parsers =
  pOne :: parseFn
  pManyLoop :: loopFn
  pList :: parseFn
  pListLoop :: "stopFn \<Rightarrow> int \<Rightarrow> ListKind \<Rightarrow> ListKind \<Rightarrow> Document \<Rightarrow> int \<Rightarrow> Node list \<Rightarrow> (int \<times> Node list) res"
  pListItem :: "ListKind \<Rightarrow> parseFn"
  pListItemLoop :: loopFn
  pFootnoteDefinition :: parseFn

text \<open>
  The \<open>switch\<close> of \<open>parseOne\<close> (lines 266-296) on the kind of the token: what the parser of
  that kind returns; one token and no node for a blank text line; nothing consumed for a
  kind the switch does not list. The two parsers of this file it calls are its second and
  third argument.
\<close>

definition dispatch :: "ext \<Rightarrow> parseFn \<Rightarrow> parseFn \<Rightarrow> token \<Rightarrow> parseFn" where
  "dispatch x parseList' parseFootnoteDefinition' t d i stop =
     (if kind t = ''unorderedList'' \<or> kind t = ''orderedList'' then parseList' d i stop
      else if kind t = ''text''
        then (if content t = [] then Ret d (1, NilNode) else parseParagraph x d i stop)
      else if kind t = ''footnoteDefinition'' then parseFootnoteDefinition' d i stop
      else (case otherParser x (kind t) of
              Some p \<Rightarrow> p d i stop
            | None \<Rightarrow> Ret d (0, NilNode)))"

definition parseOne_body :: "ext \<Rightarrow> parsers \<Rightarrow> parseFn" where
  "parseOne_body x r d i stop =
     (case tokenAt d i of
        None \<Rightarrow> Panicked IndexOutOfRange d
      | Some t \<Rightarrow>
          (case dispatch x (pList r) (pFootnoteDefinition r) t d i stop of
             OutOfFuel \<Rightarrow> OutOfFuel
           | Panicked p d' \<Rightarrow> Panicked p d'
           | Ret d1 (consumed, node) \<Rightarrow>
               if consumed \<noteq> 0 then Ret d1 (consumed, node)
               else (case coerceToText d1 i of
                       Inl (p, d') \<Rightarrow> Panicked p d'
                     | Inr d2 \<Rightarrow> pOne r d2 i stop)))"

definition parseManyLoop_body :: "ext \<Rightarrow> parsers \<Rightarrow> loopFn" where
  "parseManyLoop_body x r stop start d i nodes =
     (if i < int (length (toks d)) then
        (case stop d i of
           Inl p \<Rightarrow> Panicked p d
         | Inr True \<Rightarrow> Ret d (i - start, nodes)
         | Inr False \<Rightarrow>
             (case pOne r d i stop of
                OutOfFuel \<Rightarrow> OutOfFuel
              | Panicked p d' \<Rightarrow> Panicked p d'
              | Ret d' (consumed, node) \<Rightarrow>
                  pManyLoop r stop start d' (i + consumed)
                    (if node \<noteq> NilNode then nodes @ [node] else nodes)))
      else Ret d (i - start, nodes))"

definition parseList_body :: "ext \<Rightarrow> parsers \<Rightarrow> parseFn" where
  "parseList_body x r d i parentStop =
     (case tokenAt d i of
        None \<Rightarrow> Panicked IndexOutOfRange d
      | Some t \<Rightarrow>
          (case listKind t of
             Inl p \<Rightarrow> Panicked p d
           | Inr (listMainKind, lKind) \<Rightarrow>
               (case pListLoop r parentStop (lvl t) listMainKind lKind d i [] of
                  OutOfFuel \<Rightarrow> OutOfFuel
                | Panicked p d' \<Rightarrow> Panicked p d'
                | Ret d' (i', items) \<Rightarrow>
                    (case spanOf d' i i' of
                       None \<Rightarrow> Panicked IndexOutOfRange d'
                     | Some pos \<Rightarrow> Ret d' (i' - i, ListNode lKind items pos)))))"

definition parseListLoop_body :: "ext \<Rightarrow> parsers \<Rightarrow> stopFn \<Rightarrow> int \<Rightarrow> ListKind \<Rightarrow> ListKind \<Rightarrow> Document \<Rightarrow> int \<Rightarrow> Node list \<Rightarrow> (int \<times> Node list) res" where
  "parseListLoop_body x r parentStop lvl0 listMainKind lKind d i items =
     (case parseList_stop parentStop lvl0 listMainKind d i of
        Inl p \<Rightarrow> Panicked p d
      | Inr True \<Rightarrow> Ret d (i, items)
      | Inr False \<Rightarrow>
          (case pListItem r lKind d i parentStop of
             OutOfFuel \<Rightarrow> OutOfFuel
           | Panicked p d' \<Rightarrow> Panicked p d'
           | Ret d' (consumed, node) \<Rightarrow>
               pListLoop r parentStop lvl0 listMainKind lKind d' (i + consumed) (items @ [node])))"

text \<open>
  \<open>parseListItem\<close> (lines 777-832): the first part, the loop over the item's body under the
  item's stop predicate, the assignment \<open>d.baseLvl = originalBaseLvl\<close> (line 813), then one
  of the two returns.
\<close>

definition parseListItem_body :: "ext \<Rightarrow> parsers \<Rightarrow> ListKind \<Rightarrow> parseFn" where
  "parseListItem_body x r lKind d i parentStop =
     (let originalBaseLvl = baseLvl d in
      case parseListItem_enter x lKind d i of
        Inl (p, d') \<Rightarrow> Panicked p d'
      | Inr (d1, bullet, minIndent, dterm, status, val) \<Rightarrow>
          (case pListItemLoop r (parseListItem_stop parentStop minIndent) i d1 i [] of
             OutOfFuel \<Rightarrow> OutOfFuel
           | Panicked p d' \<Rightarrow> Panicked p d'
           | Ret d2 (i', nodes) \<Rightarrow>
               (let d3 = d2\<lparr>baseLvl := originalBaseLvl\<rparr> in
                if lKind = DescriptiveList then
                  (case parseInline d3 dterm of
                     None \<Rightarrow> OutOfFuel
                   | Some term \<Rightarrow>
                       (case spanOf d3 i i' of
                          None \<Rightarrow> Panicked IndexOutOfRange d3
                        | Some pos \<Rightarrow> Ret d3 (i' - i, DescriptiveListItem bullet status term nodes pos)))
                else
                  (case spanOf d3 i i' of
                     None \<Rightarrow> Panicked IndexOutOfRange d3
                   | Some pos \<Rightarrow> Ret d3 (i' - i, ListItem bullet status val nodes pos)))))"

definition parseListItemLoop_body :: "ext \<Rightarrow> parsers \<Rightarrow> loopFn" where
  "parseListItemLoop_body x r stop start d i nodes =
     (case parseListItem_continues x stop start d i of
        Inl p \<Rightarrow> Panicked p d
      | Inr False \<Rightarrow> Ret d (i, nodes)
      | Inr True \<Rightarrow>
          (case pOne r d i stop of
             OutOfFuel \<Rightarrow> OutOfFuel
           | Panicked p d' \<Rightarrow> Panicked p d'
           | Ret d' (consumed, node) \<Rightarrow>
               pListItemLoop r stop start d' (i + consumed) (nodes @ [node])))"

definition parseFootnoteDefinition_body :: "ext \<Rightarrow> parsers \<Rightarrow> parseFn" where
  "parseFootnoteDefinition_body x r d i parentStop =
     (case tokenAt d i of
        None \<Rightarrow> Panicked IndexOutOfRange d
      | Some startToken \<Rightarrow>
          (case strAt (matches startToken) 2 of
             None \<Rightarrow> Panicked IndexOutOfRange d
           | Some rest \<Rightarrow>
               (let tk = tokenize x rest;
                    d1 = setToken d i (fst tk);
                    d2 = (if \<not> snd tk
                          then AddError d1 ErrorTypeTokenization ''could not lex line''
                                 (getPositionFromToken (fst tk)) (fst tk)
                                 (NoLexerMatchedLine (line (fst tk)))
                          else d1)
                in case pManyLoop r (parseFootnoteDefinition_stop x parentStop i) i d2 i [] of
                     OutOfFuel \<Rightarrow> OutOfFuel
                   | Panicked p d' \<Rightarrow> Panicked p d'
                   | Ret d3 (consumed, nodes) \<Rightarrow>
                       if consumed > 0 then
                         (case tokenAt d3 (i + consumed - 1) of
                            None \<Rightarrow> Panicked IndexOutOfRange d3
                          | Some e \<Rightarrow>
                              Ret d3 (consumed,
                                FootnoteDefinitionNode
                                  (FootnoteDefinition (content startToken) nodes False
                                     \<lparr>StartLine = line startToken, StartColumn = startCol startToken,
                                      EndLine = line e, EndColumn = endCol e\<rparr>)))
                       else Ret d3 (consumed,
                              FootnoteDefinitionNode
                                (FootnoteDefinition (content startToken) nodes False noPosition)))))"

primrec parsersAt :: "nat \<Rightarrow> ext \<Rightarrow> parsers" where
  "parsersAt 0 x =
     \<lparr>pOne = (\<lambda>d i stop. OutOfFuel),
      pManyLoop = (\<lambda>stop start d i nodes. OutOfFuel),
      pList = (\<lambda>d i stop. OutOfFuel),
      pListLoop = (\<lambda>stop lvl0 mk k d i items. OutOfFuel),
      pListItem = (\<lambda>k d i stop. OutOfFuel),
      pListItemLoop = (\<lambda>stop start d i nodes. OutOfFuel),
      pFootnoteDefinition = (\<lambda>d i stop. OutOfFuel)\<rparr>"
| "parsersAt (Suc n) x =
     \<lparr>pOne = parseOne_body x (parsersAt n x),
      pManyLoop = parseManyLoop_body x (parsersAt n x),
      pList = parseList_body x (parsersAt n x),
      pListLoop = parseListLoop_body x (parsersAt n x),
      pListItem = parseListItem_body x (parsersAt n x),
      pListItemLoop = parseListItemLoop_body x (parsersAt n x),
      pFootnoteDefinition = parseFootnoteDefinition_body x (parsersAt n x)\<rparr>"

definition parseOne :: "nat \<Rightarrow> ext \<Rightarrow> parseFn" where
  "parseOne n x = pOne (parsersAt n x)"

definition parseManyLoop :: "nat \<Rightarrow> ext \<Rightarrow> loopFn" where
  "parseManyLoop n x = pManyLoop (parsersAt n x)"

definition parseList :: "nat \<Rightarrow> ext \<Rightarrow> parseFn" where
  "parseList n x = pList (parsersAt n x)"

definition parseListLoop :: "nat \<Rightarrow> ext \<Rightarrow> stopFn \<Rightarrow> int \<Rightarrow> ListKind \<Rightarrow> ListKind \<Rightarrow> Document \<Rightarrow> int \<Rightarrow> Node list \<Rightarrow> (int \<times> Node list) res" where
  "parseListLoop n x = pListLoop (parsersAt n x)"

definition parseListItem :: "nat \<Rightarrow> ext \<Rightarrow> ListKind \<Rightarrow> parseFn" where
  "parseListItem n x = pListItem (parsersAt n x)"

definition parseListItemLoop :: "nat \<Rightarrow> ext \<Rightarrow> loopFn" where
  "parseListItemLoop n x = pListItemLoop (parsersAt n x)"

definition parseFootnoteDefinition :: "nat \<Rightarrow> ext \<Rightarrow> parseFn" where
  "parseFootnoteDefinition n x = pFootnoteDefinition (parsersAt n x)"

definition parseMany :: "nat \<Rightarrow> ext \<Rightarrow> Document \<Rightarrow> int \<Rightarrow> stopFn \<Rightarrow> (int \<times> Node list) res" where
  "parseMany n x d i stop = parseManyLoop n x stop i d i []"

text \<open>
  \<open>Parse\<close> (lines 166-190). \<open>Parse_body\<close> is what runs under the deferred function once the
  guard is passed (lines 186-188): the tokenizer, the top-level \<open>parseMany\<close>, the assignment
  of \<open>Nodes\<close>. For \<open>Parse\<close>, \<open>None\<close>: it does not end within the fuel; \<open>Some None\<close>: it returns
  nil; \<open>Some (Some d)\<close>: it returns the document. A panic of the body is recovered by the
  deferred function, which adds its diagnostic to the document as the panic left it.
\<close>

definition topStop :: stopFn where
  "topStop d i = Inr (i \<ge> int (length (toks d)))"

definition Parse_body :: "nat \<Rightarrow> ext \<Rightarrow> Document \<Rightarrow> Reader \<Rightarrow> unit res" where
  "Parse_body fuel x d input =
     (case Document_tokenize x d input of
        Inl (p, d') \<Rightarrow> Panicked p d'
      | Inr d1 \<Rightarrow>
          (case parseMany fuel x d1 0 topStop of
             OutOfFuel \<Rightarrow> OutOfFuel
           | Panicked p d' \<Rightarrow> Panicked p d'
           | Ret d' (consumed, nodes) \<Rightarrow> Ret (d'\<lparr>Nodes := Some nodes\<rparr>) ()))"

definition Parse :: "nat \<Rightarrow> ext \<Rightarrow> Configuration \<Rightarrow> Reader \<Rightarrow> string \<Rightarrow> Document option option" where
  "Parse fuel x c input path =
     (let d = newDocument c path in
      if tokens d \<noteq> None then
        (let d' = AddError d ErrorTypeValidation ''parse called multiple times'' (Pos d) zeroToken NoCause
         in Some None)
      else
        (case Parse_body fuel x d input of
           OutOfFuel \<Rightarrow> None
         | Panicked p d' \<Rightarrow>
             Some (Some (AddError d' ErrorTypeInvalidStructure ''parse panic'' (Pos d') zeroToken
                           (RecoveredFromPanic p)))
         | Ret d' u \<Rightarrow> Some (Some d')))"

section \<open>A stand-in for the parts outside the three files\<close>

text \<open>
  To run the model on concrete inputs. Modelled from the spec: \<open>lexText\<close> is outside the three
  files; the spec has the last matcher take any line as plain text, its indentation and
  content extracted by the generic plain-text pattern, which is \<open>textToken\<close>. Of the other
  line matchers defined elsewhere none matches; the paragraph of a text token is the inline
  parser over the content of that one token; the other parsers consume nothing; no line is
  a second blank line.
\<close>

definition textToken :: lexFn where
  "textToken ln =
     (case FindStringSubmatch plainTextRegexp ln of
        Some m \<Rightarrow> Some (mkToken ''text'' (int (length (m ! 1))) (m ! 2) m)
      | None \<Rightarrow> None)"

definition oneLineParagraph :: parseFn where
  "oneLineParagraph d i stop =
     (case tokenAt d i of
        None \<Rightarrow> Panicked IndexOutOfRange d
      | Some t \<Rightarrow>
          (case parseInline d (content t) of
             None \<Rightarrow> OutOfFuel
           | Some ns \<Rightarrow> Ret d (1, Paragraph ns (getPositionFromToken t))))"

definition standIn :: ext where
  "standIn =
     \<lparr>lexHeadline = (\<lambda>ln. None), lexDrawer = (\<lambda>ln. None), lexBlock = (\<lambda>ln. None),
      lexResult = (\<lambda>ln. None), lexTable = (\<lambda>ln. None), lexHorizontalRule = (\<lambda>ln. None),
      lexKeywordOrComment = (\<lambda>ln. None), lexExample = (\<lambda>ln. None),
      lexLatexBlock = (\<lambda>ln. None), lexText = textToken,
      isSecondBlankLine = (\<lambda>d i. Inr False),
      parseTable = (\<lambda>d i stop. Ret d (0, NilNode)),
      parseBlock = (\<lambda>d i stop. Ret d (0, NilNode)),
      parseLatexBlock = (\<lambda>d i stop. Ret d (0, NilNode)),
      parseResult = (\<lambda>d i stop. Ret d (0, NilNode)),
      parseDrawer = (\<lambda>d i stop. Ret d (0, NilNode)),
      parseParagraph = oneLineParagraph,
      parseExample = (\<lambda>d i stop. Ret d (0, NilNode)),
      parseHorizontalRule = (\<lambda>d i stop. Ret d (0, NilNode)),
      parseComment = (\<lambda>d i stop. Ret d (0, NilNode)),
      parseKeyword = (\<lambda>d i stop. Ret d (0, NilNode)),
      parseHeadline = (\<lambda>d i stop. Ret d (0, NilNode))\<rparr>"

text \<open>The panic of a call that panicked.\<close>

definition panicOf :: "'a res \<Rightarrow> panic option" where
  "panicOf r = (case r of Panicked p d \<Rightarrow> Some p | _ \<Rightarrow> None)"

text \<open>
  What the caller of \<open>Parse\<close> sees of its result: \<open>None\<close> when it returned no document;
  otherwise the kinds and the causes of the diagnostics, the nodes, \<open>HasFatalError\<close>, and
  the content of the tokens.
\<close>

definition observed :: "Document option option
    \<Rightarrow> (ErrorType list \<times> cause list \<times> Node list option \<times> bool \<times> string list) option" where
  "observed r =
     (case r of
        Some (Some d) \<Rightarrow>
          Some (map Type (Errors d), map Cause (Errors d), Nodes d, HasFatalError d,
                map content (toks d))
      | _ \<Rightarrow> None)"

section \<open>Properties\<close>

subsection \<open>The outline builder\<close>

lemma linked_mono:
  assumes "linked h r q"
    and "length h \<le> length h'"
    and "\<And>p. p < length h \<Longrightarrow> set (Children (h ! p)) \<subseteq> set (Children (h' ! p))"
  shows "linked h' r q"
  using assms
proof (induction rule: linked.induct)
  case (linked_root r h)
  then show ?case by (auto intro: linked.linked_root)
next
  case (linked_child h r p q)
  have p: "p < length h"
    using linked_child.hyps(1) by (cases rule: linked.cases) auto
  have "linked h' r p"
    using linked_child by blast
  moreover have "q \<in> set (Children (h' ! p))"
    using linked_child.hyps(2) linked_child.prems(2) [OF p] by blast
  moreover have "q < length h'"
    using linked_child.hyps(3) linked_child.prems(1) by simp
  ultimately show ?case by (rule linked.linked_child)
qed

lemma addedSection_nth:
  assumes "cur < length h" and "p < length h"
  shows "addedSection h cur hl ! p =
           (if p = cur then (h ! p)\<lparr>Children := Children (h ! p) @ [length h]\<rparr> else h ! p)"
  using assms by (simp add: addedSection_def nth_list_update nth_append)

lemma addedSection_linked:
  assumes cur: "cur < length h" and l: "linked h r cur"
  shows "linked (addedSection h cur hl) r (length h)"
proof -
  let ?h' = "addedSection h cur hl"
  have len: "length ?h' = Suc (length h)"
    by (simp add: addedSection_def)
  have "linked ?h' r cur"
  proof (rule linked_mono [OF l])
    show "length h \<le> length ?h'" using len by simp
  next
    fix p assume "p < length h"
    then show "set (Children (h ! p)) \<subseteq> set (Children (?h' ! p))"
      using cur by (auto simp: addedSection_nth)
  qed
  moreover have "length h \<in> set (Children (?h' ! cur))"
    using cur by (simp add: addedSection_nth)
  moreover have "length h < length ?h'"
    using len by simp
  ultimately show ?thesis by (rule linked.linked_child)
qed

text \<open>
  C8. A call of \<open>addHeadline\<close> with the cursor at an allocated section returns normally. It
  allocates one new section that wraps the headline and has no children, appends it at the
  end of the children of the section the cursor \<open>last\<close> pointed to, moves the cursor to the
  new section, adds one to \<open>count\<close> exactly when the headline is not excluded, and returns
  the resulting count. Nothing else of the document changes: every section that existed
  keeps its headline and its children, in order (no re-parenting), and when the cursor was
  linked into the tree under the root, the new cursor is linked too.
\<close>

theorem addHeadline_appends_at_cursor:
  assumes cur: "last' (Outline d) < length (sections d)"
  shows "\<exists>d'. addHeadline IsExcluded d hl = Inr (d', count (Outline d'))
      \<and> sections d' = addedSection (sections d) (last' (Outline d)) hl
      \<and> length (sections d') = Suc (length (sections d))
      \<and> sections d' ! length (sections d) = \<lparr>Headline = Some hl, Children = []\<rparr>
      \<and> Children (sections d' ! last' (Outline d))
          = Children (sections d ! last' (Outline d)) @ [length (sections d)]
      \<and> last' (Outline d') = length (sections d)
      \<and> root (Outline d') = root (Outline d)
      \<and> count (Outline d')
          = count (Outline d) + (if IsExcluded hl (d\<lparr>sections := sections d'\<rparr>) then 0 else 1)
      \<and> d' = d\<lparr>sections := sections d', Outline := Outline d'\<rparr>
      \<and> (\<forall>p < length (sections d).
            Headline (sections d' ! p) = Headline (sections d ! p)
            \<and> (p \<noteq> last' (Outline d) \<longrightarrow> sections d' ! p = sections d ! p))
      \<and> (linked (sections d) (root (Outline d)) (last' (Outline d))
            \<longrightarrow> linked (sections d') (root (Outline d')) (last' (Outline d')))"
proof -
  let ?h = "sections d" and ?c = "last' (Outline d)"
  let ?h' = "addedSection ?h ?c hl"
  have add: "Section_add (?h @ [\<lparr>Headline = Some hl, Children = []\<rparr>]) ?c (length ?h) = Some ?h'"
    using cur by (simp add: Section_add_def addedSection_def nth_append)
  define d' where "d' = fst (projr (addHeadline IsExcluded d hl))"
  have res: "addHeadline IsExcluded d hl = Inr (d', count (Outline d'))"
    unfolding d'_def by (simp add: addHeadline_def add Let_def)
  have sec: "sections d' = ?h'"
    unfolding d'_def by (simp add: addHeadline_def add Let_def)
  have lst: "last' (Outline d') = length ?h" and rt: "root (Outline d') = root (Outline d)"
    unfolding d'_def by (simp_all add: addHeadline_def add Let_def)
  have cnt: "count (Outline d') = count (Outline d) + (if IsExcluded hl (d\<lparr>sections := ?h'\<rparr>) then 0 else 1)"
    unfolding d'_def by (simp add: addHeadline_def add Let_def)
  have frame: "d' = d\<lparr>sections := ?h', Outline := Outline d'\<rparr>"
    unfolding d'_def by (simp add: addHeadline_def add Let_def)
  have len: "length ?h' = Suc (length ?h)"
    by (simp add: addedSection_def)
  have new: "?h' ! length ?h = \<lparr>Headline = Some hl, Children = []\<rparr>"
    using cur by (simp add: addedSection_def nth_list_update nth_append)
  have kids: "Children (?h' ! ?c) = Children (?h ! ?c) @ [length ?h]"
    using cur by (simp add: addedSection_nth)
  have old: "\<forall>p < length ?h. Headline (?h' ! p) = Headline (?h ! p)
      \<and> (p \<noteq> ?c \<longrightarrow> ?h' ! p = ?h ! p)"
    using cur by (simp add: addedSection_nth)
  have lnk: "linked ?h (root (Outline d)) ?c \<longrightarrow> linked ?h' (root (Outline d)) (length ?h)"
    using addedSection_linked [OF cur] by blast
  show ?thesis
    using res sec lst rt cnt frame len new kids old lnk by (intro exI [of _ d']) simp
qed

theorem addHeadline_appends_at_cursor_witness:
  "\<exists>d'. addHeadline (\<lambda>h d. ''noexport'' \<in> set (Tags h)) (newDocument New ''a.org'')
           \<lparr>Lvl = 1, Title = [], Tags = [''work'']\<rparr> = Inr (d', 1)
        \<and> last' (Outline d') = 1
        \<and> Children (sections d' ! 0) = [1]
        \<and> linked (sections d') 0 1"
proof -
  let ?d = "newDocument New ''a.org''"
  let ?hl = "\<lparr>Lvl = 1, Title = [], Tags = [''work'']\<rparr>"
  have c: "last' (Outline ?d) < length (sections ?d)"
    by (simp add: newDocument_def)
  have l: "linked (sections ?d) (root (Outline ?d)) (last' (Outline ?d))"
    by (simp add: newDocument_def linked_root)
  from addHeadline_appends_at_cursor [OF c, of "\<lambda>h d. ''noexport'' \<in> set (Tags h)" ?hl]
  obtain d' where r: "addHeadline (\<lambda>h d. ''noexport'' \<in> set (Tags h)) ?d ?hl = Inr (d', count (Outline d'))"
    and k: "Children (sections d' ! last' (Outline ?d)) = Children (sections ?d ! last' (Outline ?d)) @ [length (sections ?d)]"
    and n: "last' (Outline d') = length (sections ?d)"
    and rt: "root (Outline d') = root (Outline ?d)"
    and cn: "count (Outline d') = count (Outline ?d) + (if ''noexport'' \<in> set (Tags ?hl) then 0 else 1)"
    and lk: "linked (sections ?d) (root (Outline ?d)) (last' (Outline ?d)) \<longrightarrow> linked (sections d') (root (Outline d')) (last' (Outline d'))"
    by blast
  have "count (Outline d') = 1"
    using cn by (simp add: newDocument_def)
  moreover have "last' (Outline d') = 1"
    using n by (simp add: newDocument_def)
  moreover have "Children (sections d' ! 0) = [1]"
    using k by (simp add: newDocument_def)
  moreover have "linked (sections d') 0 1"
    using lk l rt n by (simp add: newDocument_def)
  ultimately show ?thesis
    using r by (intro exI [of _ d']) simp
qed

subsection \<open>Emphasis\<close>

lemma newlinesIn_same: "newlinesIn input i i = 0"
  by (simp add: newlinesIn_def slice_def)

lemma newlinesIn_Suc:
  assumes "i \<le> j" and "j < length input"
  shows "newlinesIn input i (Suc j) = newlinesIn input i j + (if input ! j = newline then 1 else 0)"
proof -
  have "slice input i (Suc j) = slice input i j @ [input ! j]"
    using assms by (simp add: slice_def take_Suc_conv_app_nth Suc_diff_le)
  then show ?thesis by (simp add: newlinesIn_def)
qed

lemma newlinesIn_step:
  assumes "i < j" and "j \<le> length input"
  shows "newlinesIn input i j = (if input ! i = newline then 1 else 0) + newlinesIn input (Suc i) j"
proof -
  have "drop i input = input ! i # drop (Suc i) input"
    using assms by (simp add: Cons_nth_drop_Suc)
  moreover have "j - i = Suc (j - Suc i)" using assms by simp
  ultimately show ?thesis by (simp add: newlinesIn_def slice_def)
qed

lemma emphasisEnd_Some:
  assumes "emphasisEnd input (input ! start) start mx rest i cnl = Some j"
    and "rest = drop i input"
  shows "i \<le> j \<and> closesAt input start j \<and> cnl + int (newlinesIn input i j) \<le> mx
      \<and> (\<forall>k. i \<le> k \<and> k < j \<longrightarrow> \<not> closesAt input start k)"
  using assms
proof (induction rest arbitrary: i cnl)
  case Nil
  then show ?case by simp
next
  case (Cons c rest)
  have il: "i < length input"
    using Cons.prems(2) by (metis drop_eq_Nil list.distinct(1) not_le)
  have c: "c = input ! i" and rest: "rest = drop (i + 1) input"
    using Cons.prems(2) il by (simp_all add: Cons_nth_drop_Suc [symmetric])
  have le: "cnl \<le> mx"
    using Cons.prems(1) by (simp split: if_splits)
  show ?case
  proof (cases "closesAt input start i")
    case cl: True
    then have "j = i"
      using Cons.prems(1) le c by (simp add: closesAt_def)
    then show ?thesis using le cl by (auto simp: newlinesIn_same)
  next
    case cl: False
    let ?cnl = "if input ! i = newline then cnl + 1 else cnl"
    have rec: "emphasisEnd input (input ! start) start mx rest (i + 1) ?cnl = Some j"
      using Cons.prems(1) le c cl il by (auto simp: closesAt_def split: if_splits)
    have ih: "i + 1 \<le> j \<and> closesAt input start j \<and> ?cnl + int (newlinesIn input (i + 1) j) \<le> mx
        \<and> (\<forall>k. i + 1 \<le> k \<and> k < j \<longrightarrow> \<not> closesAt input start k)"
      using Cons.IH [OF rec rest] .
    have jl: "j \<le> length input" using ih by (simp add: closesAt_def)
    have "newlinesIn input i j = (if input ! i = newline then 1 else 0) + newlinesIn input (Suc i) j"
      using newlinesIn_step [of i j input] ih jl by simp
    then have "cnl + int (newlinesIn input i j) \<le> mx" using ih by (simp split: if_splits)
    moreover have "\<forall>k. i \<le> k \<and> k < j \<longrightarrow> \<not> closesAt input start k"
      using ih cl by (metis Suc_eq_plus1 Suc_leI le_neq_implies_less)
    ultimately show ?thesis using ih by simp
  qed
qed

lemma emphasisEnd_None:
  assumes "emphasisEnd input (input ! start) start mx rest i cnl = None"
    and "rest = drop i input"
    and "i \<le> j" and "closesAt input start j"
  shows "mx < cnl + int (newlinesIn input i j)"
  using assms
proof (induction rest arbitrary: i cnl)
  case Nil
  then show ?case by (simp add: closesAt_def)
next
  case (Cons c rest)
  have il: "i < length input"
    using Cons.prems(2) by (metis drop_eq_Nil list.distinct(1) not_le)
  have c: "c = input ! i" and rest: "rest = drop (i + 1) input"
    using Cons.prems(2) il by (simp_all add: Cons_nth_drop_Suc [symmetric])
  have jl: "j < length input" using Cons.prems(4) by (simp add: closesAt_def)
  show ?case
  proof (cases "cnl \<le> mx")
    case False
    then show ?thesis by simp
  next
    case le: True
    have cl: "\<not> closesAt input start i"
      using Cons.prems(1) le c il by (auto simp: closesAt_def)
    then have ij: "i + 1 \<le> j"
      using Cons.prems(3,4) by (metis Suc_eq_plus1 Suc_leI le_neq_implies_less)
    let ?cnl = "if input ! i = newline then cnl + 1 else cnl"
    have rec: "emphasisEnd input (input ! start) start mx rest (i + 1) ?cnl = None"
      using Cons.prems(1) le c cl il by (auto simp: closesAt_def split: if_splits)
    have ih: "mx < ?cnl + int (newlinesIn input (i + 1) j)"
      using Cons.IH [OF rec rest ij Cons.prems(4)] .
    have "newlinesIn input i j = (if input ! i = newline then 1 else 0) + newlinesIn input (Suc i) j"
      using newlinesIn_step [of i j input] ij jl by simp
    then show ?thesis using ih by (simp split: if_splits)
  qed
qed

lemma closesAt_iff:
  "(start < j \<and> closesAt input start j)
    = (start + 1 < j \<and> j < length input \<and> input ! j = input ! start
       \<and> isValidBorderChar (prevRune input j) \<and> isValidPostChar (nextRune input j))"
  by (auto simp: closesAt_def hasValidPostAndBorderChars_def)

lemma parseEmphasisWithPos_iff:
  assumes st: "start < length input"
  shows "((parseEmphasisWithPos rec d input start isRaw sl sc = Inr (Some (0, NilNode)))
      = (\<not> (\<exists>j. emphasisMatches d input start j)))
   \<and> ((\<exists>j. emphasisMatches d input start j) \<longrightarrow>
        (\<exists>j. emphasisMatches d input start j
           \<and> (\<forall>k. emphasisMatches d input start k \<longrightarrow> j \<le> k)
           \<and> parseEmphasisWithPos rec d input start isRaw sl sc
               = (case (if isRaw then Some (parseRawInline (slice input (start + 1) j))
                        else rec (slice input (start + 1) j) sl (sc + int start + 1)) of
                    None \<Rightarrow> Inr None
                  | Some contents \<Rightarrow>
                      Inr (Some (j + 1 - start,
                                 Emphasis [input ! start] contents
                                   (positionFromChars input sl sc (int start) (int (j + 1))))))))"
proof (cases "hasValidPreAndBorderChars input start")
  case False
  then have "parseEmphasisWithPos rec d input start isRaw sl sc = Inr (Some (0, NilNode))"
    using st by (simp add: parseEmphasisWithPos_def)
  moreover have "\<not> (\<exists>j. emphasisMatches d input start j)"
    using False by (auto simp: emphasisMatches_def hasValidPreAndBorderChars_def)
  ultimately show ?thesis by simp
next
  case pre: True
  let ?mx = "MaxEmphasisNewLines (Config d)"
  show ?thesis
  proof (cases "emphasisEnd input (input ! start) start ?mx (drop (start + 1) input) (start + 1) 0")
    case None
    then have r: "parseEmphasisWithPos rec d input start isRaw sl sc = Inr (Some (0, NilNode))"
      using pre st by (simp add: parseEmphasisWithPos_def)
    have "\<not> (\<exists>j. emphasisMatches d input start j)"
    proof
      assume "\<exists>j. emphasisMatches d input start j"
      then obtain j where j: "emphasisMatches d input start j" by blast
      then have "start + 1 \<le> j" and "closesAt input start j"
        by (auto simp: emphasisMatches_def closesAt_def hasValidPostAndBorderChars_def)
      from emphasisEnd_None [OF None refl this] j show False
        by (simp add: emphasisMatches_def)
    qed
    then show ?thesis using r by simp
  next
    case (Some j)
    from emphasisEnd_Some [OF Some refl]
    have j1: "start + 1 \<le> j" and cl: "closesAt input start j"
      and nl: "int (newlinesIn input (start + 1) j) \<le> ?mx"
      and least: "\<forall>k. start + 1 \<le> k \<and> k < j \<longrightarrow> \<not> closesAt input start k"
      by simp_all
    have m: "emphasisMatches d input start j"
      using pre j1 cl nl
      by (auto simp: emphasisMatches_def closesAt_def hasValidPostAndBorderChars_def
          hasValidPreAndBorderChars_def)
    have lst: "\<forall>k. emphasisMatches d input start k \<longrightarrow> j \<le> k"
    proof (intro allI impI)
      fix k assume "emphasisMatches d input start k"
      then have "start + 1 \<le> k" and "closesAt input start k"
        by (auto simp: emphasisMatches_def closesAt_def hasValidPostAndBorderChars_def)
      then show "j \<le> k" using least by (meson not_le)
    qed
    have sl1: "slice input start (start + 1) = [input ! start]"
      using m by (simp add: slice_def emphasisMatches_def take_Suc_conv_app_nth
          Cons_nth_drop_Suc [symmetric] take_Suc_Cons hd_drop_conv_nth)
    then have sl2: "slice input start (Suc start) = [input ! start]"
      by simp
    have r: "parseEmphasisWithPos rec d input start isRaw sl sc
        = (case (if isRaw then Some (parseRawInline (slice input (start + 1) j))
                 else rec (slice input (start + 1) j) sl (sc + int start + 1)) of
             None \<Rightarrow> Inr None
           | Some contents \<Rightarrow>
               Inr (Some (j + 1 - start,
                          Emphasis [input ! start] contents
                            (positionFromChars input sl sc (int start) (int (j + 1))))))"
      using pre Some st by (auto simp: parseEmphasisWithPos_def sl1 sl2 Let_def split: option.splits)
    have ne: "parseEmphasisWithPos rec d input start isRaw sl sc \<noteq> Inr (Some (0, NilNode))"
      unfolding r by (simp split: option.splits)
    show ?thesis using m lst r ne by blast
  qed
qed

lemma parseEmphasisWithPos_outside:
  "length input \<le> start \<Longrightarrow> parseEmphasisWithPos rec d input start isRaw sl sc = Inl IndexOutOfRange"
  by (simp add: parseEmphasisWithPos_def)

subsection \<open>What a match takes\<close>

text \<open>
  A match of a pattern takes at least \<open>minLen\<close> bytes of the text, and the text of every
  group is no longer than the text searched.
\<close>

lemma rep_result:
  assumes "rep p lo hi g s cnt k = Some res"
  shows "\<exists>s'. length s' + (lo - cnt) \<le> length s \<and> k s' = Some res"
  using assms
proof (induction s arbitrary: cnt)
  case Nil
  then show ?case by (auto split: if_splits)
next
  case (Cons c s)
  have stop: "(if lo \<le> cnt then k (c # s) else None) = Some res \<Longrightarrow> ?case"
    by (intro exI [of _ "c # s"]) (auto split: if_splits)
  have more: "rep p lo hi g s (Suc cnt) k = Some res \<Longrightarrow> ?case"
  proof -
    assume "rep p lo hi g s (Suc cnt) k = Some res"
    from Cons.IH [OF this] obtain s' where "length s' + (lo - Suc cnt) \<le> length s" "k s' = Some res"
      by blast
    then show ?case by (intro exI [of _ s']) auto
  qed
  from Cons.prems show ?case
    using stop more by (auto simp: Let_def split: if_splits option.splits)
qed

lemma rmatch_result:
  assumes "rmatch r s cs k = Some res"
  shows "\<exists>s' cs'. length s' + minLen r \<le> length s \<and> k s' cs' = Some res
           \<and> (\<forall>n. cs' n = cs n \<or> length (cs' n) \<le> length s)"
  using assms
proof (induction r arbitrary: s cs k res)
  case (Chr p)
  then show ?case by (cases s) (auto split: if_splits)
next
  case (Rep p lo hi g)
  from rep_result [of p lo hi g s 0 "\<lambda>s'. k s' cs" res] Rep show ?case by auto
next
  case (Cat a b)
  from Cat.prems have "rmatch a s cs (\<lambda>s' cs'. rmatch b s' cs' k) = Some res" by simp
  from Cat.IH(1) [OF this] obtain s1 cs1 where 1: "length s1 + minLen a \<le> length s"
    "rmatch b s1 cs1 k = Some res" "\<forall>n. cs1 n = cs n \<or> length (cs1 n) \<le> length s"
    by blast
  from Cat.IH(2) [OF 1(2)] obtain s2 cs2 where 2: "length s2 + minLen b \<le> length s1"
    "k s2 cs2 = Some res" "\<forall>n. cs2 n = cs1 n \<or> length (cs2 n) \<le> length s1"
    by blast
  have "\<forall>n. cs2 n = cs n \<or> length (cs2 n) \<le> length s"
  proof
    fix n
    from 2(3) have "cs2 n = cs1 n \<or> length (cs2 n) \<le> length s1" by blast
    moreover from 1(3) have "cs1 n = cs n \<or> length (cs1 n) \<le> length s" by blast
    ultimately show "cs2 n = cs n \<or> length (cs2 n) \<le> length s" using 1(1) by auto
  qed
  then show ?case using 1(1) 2(1,2) by (intro exI [of _ s2] exI [of _ cs2]) auto
next
  case (Alt a b)
  from Alt.prems have "rmatch a s cs k = Some res \<or> rmatch b s cs k = Some res"
    by (auto split: option.splits)
  then show ?case
  proof
    assume "rmatch a s cs k = Some res"
    from Alt.IH(1) [OF this] obtain s1 cs1 where "length s1 + minLen a \<le> length s"
      "k s1 cs1 = Some res" "\<forall>n. cs1 n = cs n \<or> length (cs1 n) \<le> length s"
      by blast
    then show ?thesis by (intro exI [of _ s1] exI [of _ cs1]) auto
  next
    assume "rmatch b s cs k = Some res"
    from Alt.IH(2) [OF this] obtain s1 cs1 where "length s1 + minLen b \<le> length s"
      "k s1 cs1 = Some res" "\<forall>n. cs1 n = cs n \<or> length (cs1 n) \<le> length s"
      by blast
    then show ?thesis by (intro exI [of _ s1] exI [of _ cs1]) auto
  qed
next
  case (Opt a)
  from Opt.prems have "rmatch a s cs k = Some res \<or> k s cs = Some res"
    by (auto split: option.splits)
  then show ?case
  proof
    assume "rmatch a s cs k = Some res"
    from Opt.IH [OF this] obtain s1 cs1 where "length s1 + minLen a \<le> length s"
      "k s1 cs1 = Some res" "\<forall>n. cs1 n = cs n \<or> length (cs1 n) \<le> length s"
      by blast
    then show ?thesis by (intro exI [of _ s1] exI [of _ cs1]) auto
  next
    assume "k s cs = Some res"
    then show ?thesis by (intro exI [of _ s] exI [of _ cs]) auto
  qed
next
  case (Grp n a)
  from Grp.prems
  have "rmatch a s cs (\<lambda>s' cs'. k s' (cs'(n := take (length s - length s') s))) = Some res"
    by simp
  from Grp.IH [OF this] obtain s1 cs1 where 1: "length s1 + minLen a \<le> length s"
    "k s1 (cs1(n := take (length s - length s1) s)) = Some res"
    "\<forall>m. cs1 m = cs m \<or> length (cs1 m) \<le> length s"
    by blast
  let ?cs = "cs1(n := take (length s - length s1) s)"
  have "\<forall>m. ?cs m = cs m \<or> length (?cs m) \<le> length s"
    using 1(3) by auto
  moreover have "length s1 + minLen (Grp n a) \<le> length s"
    using 1(1) by simp
  ultimately show ?case
    using 1(2) by blast
next
  case Eot
  then show ?case by (auto split: if_splits)
next
  case Eps
  then show ?case by auto
qed

lemma length_groupList: "length (groupList cs n) = n"
  by (induction n) auto

lemma set_groupList: "e \<in> set (groupList cs n) \<Longrightarrow> \<exists>k. e = cs k"
  by (induction n) auto

lemma matchAt_result:
  assumes "matchAt r s = Some (n, m)"
  shows "minLen (body r) \<le> n \<and> n \<le> length s \<and> length m = Suc (groups r)
     \<and> (\<forall>e \<in> set m. length e \<le> length s) \<and> length (m ! 0) = n"
proof -
  from assms obtain s' cs where r: "rmatch (body r) s (\<lambda>_. []) (\<lambda>s' cs. Some (s', cs)) = Some (s', cs)"
    and n: "n = length s - length s'" and m: "m = take (length s - length s') s # groupList cs (groups r)"
    by (auto simp: matchAt_def split: option.splits)
  from rmatch_result [OF r] have l: "length s' + minLen (body r) \<le> length s"
    and c: "\<forall>k. cs k = [] \<or> length (cs k) \<le> length s"
    by auto
  have c': "\<And>k. length (cs k) \<le> length s"
    using c by (metis le0 list.size(3))
  have "\<forall>e \<in> set m. length e \<le> length s"
    unfolding m using c' by (auto dest!: set_groupList)
  then show ?thesis using l n m by (auto simp: length_groupList)
qed

lemma search_result:
  assumes "search r s i = Some (j, n, m)"
  shows "minLen (body r) \<le> n \<and> length m = Suc (groups r)
     \<and> (\<forall>e \<in> set m. length e \<le> length s) \<and> length (m ! 0) = n"
  using assms
proof (induction s arbitrary: i)
  case Nil
  then show ?case using matchAt_result [of r "[]" n m] by (auto split: option.splits)
next
  case (Cons c s)
  show ?case
  proof (cases "matchAt r (c # s)")
    case None
    then have "search r s (Suc i) = Some (j, n, m)" using Cons.prems by simp
    from Cons.IH [OF this] show ?thesis by auto
  next
    case (Some a)
    then have "matchAt r (c # s) = Some (n, m)" using Cons.prems by (cases a) auto
    from matchAt_result [OF this] show ?thesis by auto
  qed
qed

lemma FindStringSubmatch_result:
  assumes "FindStringSubmatch r s = Some m"
  shows "length m = Suc (groups r) \<and> minLen (body r) \<le> length (m ! 0)
     \<and> (\<forall>e \<in> set m. length e \<le> length s)"
proof (cases "anchored r")
  case True
  with assms obtain n where "matchAt r s = Some (n, m)"
    by (auto simp: FindStringSubmatch_def findFirst_def split: option.splits)
  from matchAt_result [OF this] show ?thesis by auto
next
  case False
  with assms obtain j n where "search r s 0 = Some (j, n, m)"
    by (auto simp: FindStringSubmatch_def findFirst_def split: option.splits)
  from search_result [OF this] show ?thesis by auto
qed

subsection \<open>The inline parser returns\<close>

text \<open>
  A sub-scanner that steps back before its trigger consumes more than it steps back; the
  text a sub-scanner hands to the nested parse is shorter than what is left of the input.
  So the fuel \<open>parseInlineWithPos\<close> starts with is enough: it returns, for every input.
\<close>

lemma minLen_lits: "minLen (lits s) = length s"
  by (induction s) (simp_all add: lits_def lit_def)

lemma parseInlineBlockWithPos_progress:
  assumes "parseInlineBlockWithPos input start sl sc = (rw, cn, nd)"
  shows "rw = 0 \<and> cn = 0 \<or> rw < cn"
proof (cases "rw = 0 \<and> cn = 0")
  case True
  then show ?thesis by simp
next
  case False
  with assms obtain m where m: "FindStringSubmatch inlineBlockRegexp (drop (start - 3) input) = Some m"
    and r: "rw = 3" "cn = length (m ! 0)"
    by (auto simp: parseInlineBlockWithPos_def Let_def split: if_splits option.splits)
  have "minLen (body inlineBlockRegexp) = 7"
    by (simp add: inlineBlockRegexp_def minLen_lits lit_def plusOf_def starOf_def)
  with FindStringSubmatch_result [OF m] show ?thesis using r by simp
qed

lemma colon_is_valid: "ContainsRune validURLCharacters (byte CHR '':'')"
  by code_simp

lemma parseAutoLinkWithPos_progress:
  assumes "parseAutoLinkWithPos d input start sl sc = (rw, cn, nd)"
  shows "rw = 0 \<and> cn = 0 \<or> rw < cn"
proof (cases "rw = 0 \<and> cn = 0")
  case True
  then show ?thesis by simp
next
  case False
  let ?path = "slice input start (start + length (takeWhile (\<lambda>c. ContainsRune validURLCharacters (byte c))
                                          (drop start input)))"
  from assms False obtain m where s3: "slice input start (start + 3) = ''://''"
    and r: "rw = length (m ! 1)" "cn = length (?path @ m ! 1)"
    by (auto simp: parseAutoLinkWithPos_def Let_def split: if_splits option.splits)
  from s3 obtain rest where d: "drop start input = CHR '':'' # rest"
    by (cases "drop start input") (auto simp: slice_def)
  have "?path \<noteq> []"
    unfolding slice_def d using colon_is_valid by simp
  then show ?thesis using r by simp
qed

lemma SplitAcc_length:
  "e \<in> set (SplitAcc s sep skip cur) \<Longrightarrow> length e \<le> length cur + length s"
proof (induction s arbitrary: skip cur)
  case Nil
  then show ?case by simp
next
  case (Cons c s)
  then show ?case by (fastforce split: if_splits)
qed

lemma Split_length: "e \<in> set (Split s sep) \<Longrightarrow> length e \<le> length s"
  using SplitAcc_length [of e s sep 0 "[]"] by (simp add: Split_def)

lemma footnoteRegexp_group3:
  assumes "FindStringSubmatch footnoteRegexp s = Some m"
  shows "length m = 4 \<and> length (m ! 3) < length s"
proof -
  let ?rest = "Cat (lits ''fn:'') (cats [Grp 1 (lazyStar (\<lambda>c. wordc c \<or> c = CHR ''-'')),
                  Opt (Grp 2 (cats [lit CHR '':'', Grp 3 (lazyStar dot)])), lit CHR '']''])"
  from assms obtain s'' cs where r: "rmatch (body footnoteRegexp) s (\<lambda>_. []) (\<lambda>s' cs. Some (s', cs)) = Some (s'', cs)"
    and m: "m = take (length s - length s'') s # groupList cs 3"
    by (auto simp: FindStringSubmatch_def findFirst_def matchAt_def footnoteRegexp_def split: option.splits)
  from r obtain t where s: "s = CHR ''['' # t"
    and r': "rmatch ?rest t (\<lambda>_. []) (\<lambda>s' cs. Some (s', cs)) = Some (s'', cs)"
    by (cases s) (auto simp: footnoteRegexp_def lits_def lit_def split: if_splits)
  from rmatch_result [OF r'] have "\<forall>n. cs n = [] \<or> length (cs n) \<le> length t"
    by auto
  then have "length (cs 3) \<le> length t"
    by (metis le0 list.size(3))
  then show ?thesis
    unfolding m s by (simp add: numeral_3_eq_3)
qed

lemma length_slice_le: "length (slice s a b) \<le> length s - a"
  by (simp add: slice_def)

lemma parseEmphasisWithPos_returns:
  assumes "start < length input"
    and rec: "\<forall>t l c. length t < length input - start \<longrightarrow> rec t l c \<noteq> None"
  shows "\<exists>cn nd. parseEmphasisWithPos rec d input start isRaw sl sc = Inr (Some (cn, nd))"
proof -
  have "\<And>j. rec (slice input (start + 1) j) sl (sc + int start + 1) \<noteq> None"
  proof -
    fix j
    have "length (slice input (start + 1) j) \<le> length input - (start + 1)"
      by (rule length_slice_le)
    then have "length (slice input (start + 1) j) < length input - start"
      using assms(1) by simp
    then show "rec (slice input (start + 1) j) sl (sc + int start + 1) \<noteq> None"
      using rec by blast
  qed
  then have "\<And>j. \<exists>ns. rec (slice input (start + 1) j) sl (sc + int start + 1) = Some ns"
    by auto
  then show ?thesis
    using assms(1)
    by (auto simp: parseEmphasisWithPos_def Let_def split: option.splits) (metis option.distinct(1))
qed

lemma parseRegularLinkWithPos_returns:
  assumes rec: "\<forall>t l c. length t < length input0 - start \<longrightarrow> rec t l c \<noteq> None"
  shows "\<exists>cn nd. parseRegularLinkWithPos rec d input0 start sl sc = Some (cn, nd)"
proof -
  let ?input = "drop start input0"
  show ?thesis
  proof (cases "length ?input < 3 \<or> take 2 ?input \<noteq> ''[['' \<or> ?input ! 2 = CHR ''[''")
    case True
    then show ?thesis by (auto simp: parseRegularLinkWithPos_def Let_def)
  next
    case False
    then have l3: "3 \<le> length ?input" by simp
    show ?thesis
    proof (cases "IndexFrom ?input '']]'' 0")
      case None
      then show ?thesis using False by (auto simp: parseRegularLinkWithPos_def Let_def)
    next
      case (Some fin)
      let ?parts = "Split (slice ?input 2 fin) ''][''"
      have "\<exists>ds. (if length ?parts = 2 then rec (?parts ! 1) sl (sc + int start + 2) else Some []) = Some ds"
      proof (cases "length ?parts = 2")
        case True
        then have "?parts ! 1 \<in> set ?parts" by simp
        then have "length (?parts ! 1) \<le> length (slice ?input 2 fin)" by (rule Split_length)
        also have "\<dots> \<le> length ?input - 2" by (rule length_slice_le)
        finally have "length (?parts ! 1) < length input0 - start" using l3 by simp
        with rec have "rec (?parts ! 1) sl (sc + int start + 2) \<noteq> None" by blast
        then show ?thesis using True by auto
      next
        case False
        then show ?thesis by simp
      qed
      then obtain ds where ds: "(if length ?parts = 2 then rec (?parts ! 1) sl (sc + int start + 2) else Some []) = Some ds"
        by blast
      show ?thesis
        using False Some ds
        by (simp add: parseRegularLinkWithPos_def Let_def split: Node.splits)
    qed
  qed
qed

lemma parseFootnoteReferenceWithPos_returns:
  assumes rec: "\<forall>t l c. length t < length input - start \<longrightarrow> rec t l c \<noteq> None"
  shows "\<exists>cn nd. parseFootnoteReferenceWithPos rec d input start sl sc = Some (cn, nd)"
proof (cases "FindStringSubmatch footnoteRegexp (drop start input)")
  case None
  then show ?thesis by (simp add: parseFootnoteReferenceWithPos_def)
next
  case (Some m)
  from footnoteRegexp_group3 [OF Some] have "length (m ! 3) < length input - start" by simp
  with rec obtain ns where
    "rec (m ! 3) sl (sc + int start + int (length (m ! 1)) + 5) = Some ns"
    by (metis not_None_eq)
  then show ?thesis
    using Some by (simp add: parseFootnoteReferenceWithPos_def Let_def)
qed

lemma parseOpeningBracketWithPos_returns:
  assumes rec: "\<forall>t l c. length t < length input - start \<longrightarrow> rec t l c \<noteq> None"
  shows "\<exists>cn nd. parseOpeningBracketWithPos rec d input start sl sc = Some (cn, nd)"
  using parseRegularLinkWithPos_returns [OF rec, where d = d and sl = sl and sc = sc]
    parseFootnoteReferenceWithPos_returns [OF rec, where d = d and sl = sl and sc = sc]
  by (cases "parseStatisticTokenWithPos input start sl sc")
     (auto simp: parseOpeningBracketWithPos_def)

lemma inlineSwitch_returns:
  assumes cur: "current < length input"
    and rec: "\<forall>t l c. length t < length input - current \<longrightarrow> rec t l c \<noteq> None"
  shows "\<exists>rw cn nd. inlineSwitch rec d input current sl sc = Some (rw, cn, nd) \<and> (rw = 0 \<and> cn = 0 \<or> rw < cn)"
proof -
  have nr: "\<And>r. \<exists>cn nd. r = Some (cn, nd) \<Longrightarrow>
      \<exists>rw cn nd. noRewind r = Some (rw, cn, nd) \<and> (rw = 0 \<and> cn = 0 \<or> rw < cn)"
    by (auto simp: noRewind_def)
  have pr: "\<And>p. \<exists>rw cn nd. noRewind (Some p) = Some (rw, cn, nd) \<and> (rw = 0 \<and> cn = 0 \<or> rw < cn)"
    by (rule nr) (metis surj_pair)
  have em: "\<exists>cn nd. returned (parseEmphasisWithPos rec d input current isRaw sl sc) = Some (cn, nd)" for isRaw
  proof -
    from parseEmphasisWithPos_returns [OF cur rec] obtain cn nd where
      "parseEmphasisWithPos rec d input current isRaw sl sc = Inr (Some (cn, nd))"
      by blast
    then show ?thesis by (simp add: returned_def)
  qed
  have us: "\<exists>rw cn nd. parseSubScriptOrEmphasisOrInlineBlockWithPos rec d input current sl sc = Some (rw, cn, nd)
      \<and> (rw = 0 \<and> cn = 0 \<or> rw < cn)"
  proof -
    obtain rw cn nd where ib: "parseInlineBlockWithPos input current sl sc = (rw, cn, nd)"
      by (metis prod_cases3)
    obtain cn2 nd2 where ss: "parseSubOrSuperScriptWithPos input current sl sc = (cn2, nd2)"
      by (metis surj_pair)
    from em [of False] obtain cn3 nd3 where
      e: "returned (parseEmphasisWithPos rec d input current False sl sc) = Some (cn3, nd3)"
      by blast
    show ?thesis
      using parseInlineBlockWithPos_progress [OF ib] ib ss e
      by (auto simp: parseSubScriptOrEmphasisOrInlineBlockWithPos_def)
  qed
  have al: "\<exists>rw cn nd. parseAutoLink d input current = (rw, cn, nd) \<and> (rw = 0 \<and> cn = 0 \<or> rw < cn)"
  proof -
    obtain rw cn nd where a: "parseAutoLinkWithPos d input current 0 0 = (rw, cn, nd)"
      by (metis prod_cases3)
    from parseAutoLinkWithPos_progress [OF a] a show ?thesis
      by (auto simp: parseAutoLink_def)
  qed
  show ?thesis
    unfolding inlineSwitch_def Let_def
    using pr nr [OF em] nr [OF parseOpeningBracketWithPos_returns [OF rec, where d = d and sl = sl and sc = sc]] us al
    by (simp del: not_None_eq)
qed

lemma parseInlineLoop_returns:
  assumes "length input - current < fuel"
  shows "\<exists>ns. parseInlineLoop fuel d input sl sc previous current nodes = Some ns"
  using assms
proof (induction fuel arbitrary: input sl sc previous current nodes)
  case 0
  then show ?case by simp
next
  case (Suc fuel)
  show ?case
  proof (cases "current < length input")
    case False
    then show ?thesis by simp
  next
    case True
    let ?rec = "\<lambda>text l c. parseInlineLoop fuel d text l c 0 0 []"
    have rec: "\<forall>t l c. length t < length input - current \<longrightarrow> ?rec t l c \<noteq> None"
    proof (intro allI impI)
      fix t :: string and l c :: int
      assume "length t < length input - current"
      then have "length t - 0 < fuel" using Suc.prems by simp
      from Suc.IH [OF this] show "?rec t l c \<noteq> None" by auto
    qed
    from inlineSwitch_returns [OF True rec, where d = d and sl = sl and sc = sc] obtain rw cn nd where
      sw: "inlineSwitch ?rec d input current sl sc = Some (rw, cn, nd)" and pg: "rw = 0 \<and> cn = 0 \<or> rw < cn"
      by blast
    show ?thesis
    proof (cases "cn = 0")
      case True
      then have rw: "rw = 0" using pg by simp
      have "length input - (current + 1) < fuel" using Suc.prems \<open>current < length input\<close> by simp
      from Suc.IH [OF this] show ?thesis
        using sw True rw \<open>current < length input\<close> by (simp add: Let_def)
    next
      case False
      then have "length input - (current - rw + cn) < fuel"
        using pg Suc.prems \<open>current < length input\<close> by simp
      from Suc.IH [OF this] show ?thesis
        using sw False \<open>current < length input\<close> by (simp add: Let_def)
    qed
  qed
qed

lemma parseInlineWithPos_returns:
  "\<exists>ns. parseInlineWithPos d input sl sc = Some ns"
  unfolding parseInlineWithPos_def by (rule parseInlineLoop_returns) simp

subsection \<open>Emphasis, stated and checked\<close>

lemma emphasis_abc:
  "parseInline (newDocument New []) ''a*b*c''
    = Some [Text ''a*b*c'' False \<lparr>StartLine = 0, StartColumn = 0, EndLine = 0, EndColumn = 5\<rparr>]"
  by code_simp

lemma emphasis_after_quote:
  "parseInline (newDocument New []) (dquote # ''*bold*'' @ [dquote])
    = Some [Text [dquote] False \<lparr>StartLine = 0, StartColumn = 0, EndLine = 0, EndColumn = 1\<rparr>,
            Emphasis ''*'' [Text ''bold'' False \<lparr>StartLine = 0, StartColumn = 2, EndLine = 0, EndColumn = 6\<rparr>]
              \<lparr>StartLine = 0, StartColumn = 1, EndLine = 0, EndColumn = 7\<rparr>,
            Text [dquote] False \<lparr>StartLine = 0, StartColumn = 7, EndLine = 0, EndColumn = 8\<rparr>]"
  by code_simp




subsection \<open>Footnote references\<close>

lemma footnote_empty_text:
  "parseInline d ''[fn:]''
     = Some [Text ''[fn:]'' False \<lparr>StartLine = 0, StartColumn = 0, EndLine = 0, EndColumn = 5\<rparr>]"
proof (cases d)
  case (fields Config Path tokens baseLvl Macros Links Nodes NamedNodes Outline BufferSettings Errors
      Pos FatalError sections)
  show ?thesis
  proof (cases Config)
    case (fields m a ds rl)
    show ?thesis
    proof (cases a)
      case True
      then have a: "a = True" by simp
      show ?thesis
        unfolding \<open>d = _\<close> \<open>Config = _\<close> a by code_simp
    next
      case False
      then have a: "a = False" by simp
      show ?thesis
        unfolding \<open>d = _\<close> \<open>Config = _\<close> a by code_simp
    qed
  qed
qed

lemma footnote_empty_scan:
  "parseFootnoteReferenceWithPos rec d ''[fn:]'' 0 sl sc = Some (0, NilNode)
   \<and> parseOpeningBracketWithPos rec d ''[fn:]'' 0 sl sc = Some (0, NilNode)"
proof -
  have m: "FindStringSubmatch footnoteRegexp (drop 0 ''[fn:]'') = Some [''[fn:]'', [], [], []]"
    by code_simp
  have f: "parseFootnoteReferenceWithPos rec d ''[fn:]'' 0 sl sc = Some (0, NilNode)"
    by (simp only: parseFootnoteReferenceWithPos_def m) simp
  have "MatchString footnoteRegexp (drop 0 ''[fn:]'')"
    by code_simp
  then have "parseOpeningBracketWithPos rec d ''[fn:]'' 0 sl sc
      = parseFootnoteReferenceWithPos rec d ''[fn:]'' 0 sl sc"
    by (simp add: parseOpeningBracketWithPos_def)
  then show ?thesis using f by simp
qed

text \<open>
  C10. Whenever the footnote pattern matches with an empty name and an empty inline
  definition, the footnote-reference sub-scanner returns no match (consumed 0, nil node);
  on the text \<open>[fn:]\<close> that is what it and the opening-bracket scanner return, and inline
  parsing gives the text back as one Text node. When the sub-scanner returns a node, the
  node is a FootnoteLink named by the first group, the whole match is consumed, and its
  Definition is set exactly when the inline definition (the third group) is not empty: it
  is then the definition of that name, marked inline, holding one paragraph with the inline
  parse of the definition text.
\<close>

theorem parseFootnoteReferenceWithPos_empty:
  "(\<forall>m. FindStringSubmatch footnoteRegexp (drop start input) = Some m \<longrightarrow> m ! 1 = [] \<longrightarrow> m ! 3 = []
        \<longrightarrow> parseFootnoteReferenceWithPos rec d input start sl sc = Some (0, NilNode))
   \<and> parseFootnoteReferenceWithPos rec d ''[fn:]'' 0 sl sc = Some (0, NilNode)
   \<and> parseOpeningBracketWithPos rec d ''[fn:]'' 0 sl sc = Some (0, NilNode)
   \<and> parseInline d ''[fn:]''
       = Some [Text ''[fn:]'' False \<lparr>StartLine = 0, StartColumn = 0, EndLine = 0, EndColumn = 5\<rparr>]
   \<and> (\<forall>consumed node.
         parseFootnoteReferenceWithPos rec d input start sl sc = Some (consumed, node) \<longrightarrow> node \<noteq> NilNode
         \<longrightarrow> (\<exists>m def pos.
                FindStringSubmatch footnoteRegexp (drop start input) = Some m
                \<and> node = FootnoteLink (m ! 1) def pos
                \<and> consumed = length (m ! 0)
                \<and> (def \<noteq> None) = (m ! 3 \<noteq> [])
                \<and> (\<forall>fd. def = Some fd \<longrightarrow>
                      (\<exists>ns. rec (m ! 3) sl (sc + int start + int (length (m ! 1)) + 5) = Some ns
                         \<and> fd = FootnoteDefinition (m ! 1) [Paragraph ns noPosition] True noPosition))))"
proof -
  have a: "\<forall>m. FindStringSubmatch footnoteRegexp (drop start input) = Some m \<longrightarrow> m ! 1 = [] \<longrightarrow> m ! 3 = []
        \<longrightarrow> parseFootnoteReferenceWithPos rec d input start sl sc = Some (0, NilNode)"
    by (simp add: parseFootnoteReferenceWithPos_def)
  have b: "\<forall>consumed node.
         parseFootnoteReferenceWithPos rec d input start sl sc = Some (consumed, node) \<longrightarrow> node \<noteq> NilNode
         \<longrightarrow> (\<exists>m def pos.
                FindStringSubmatch footnoteRegexp (drop start input) = Some m
                \<and> node = FootnoteLink (m ! 1) def pos
                \<and> consumed = length (m ! 0)
                \<and> (def \<noteq> None) = (m ! 3 \<noteq> [])
                \<and> (\<forall>fd. def = Some fd \<longrightarrow>
                      (\<exists>ns. rec (m ! 3) sl (sc + int start + int (length (m ! 1)) + 5) = Some ns
                         \<and> fd = FootnoteDefinition (m ! 1) [Paragraph ns noPosition] True noPosition)))"
    by (auto simp: parseFootnoteReferenceWithPos_def Let_def split: option.splits if_splits)
  show ?thesis
    using a b footnote_empty_scan [of rec d sl sc] footnote_empty_text [of d] by blast
qed

theorem parseFootnoteReferenceWithPos_empty_witness:
  "parseFootnoteReferenceWithPos (parseInlineWithPos (newDocument New [])) (newDocument New [])
       ''[fn:1:x]'' 0 0 0
     = Some (8, FootnoteLink ''1''
                 (Some (FootnoteDefinition ''1''
                   [Paragraph [Text ''x'' False \<lparr>StartLine = 0, StartColumn = 6, EndLine = 0, EndColumn = 7\<rparr>]
                      noPosition] True noPosition))
                 \<lparr>StartLine = 0, StartColumn = 0, EndLine = 0, EndColumn = 8\<rparr>)
   \<and> FindStringSubmatch footnoteRegexp (drop 0 ''[fn:1:x]'') = Some [''[fn:1:x]'', ''1'', '':x'', ''x'']
   \<and> parseFootnoteReferenceWithPos (parseInlineWithPos (newDocument New [])) (newDocument New [])
       ''[fn::]'' 0 0 0 = Some (0, NilNode)"
proof -
  let ?d = "newDocument New []"
  let ?rec = "parseInlineWithPos ?d"
  have r: "parseFootnoteReferenceWithPos ?rec ?d ''[fn:1:x]'' 0 0 0
     = Some (8, FootnoteLink ''1''
                 (Some (FootnoteDefinition ''1''
                   [Paragraph [Text ''x'' False \<lparr>StartLine = 0, StartColumn = 6, EndLine = 0, EndColumn = 7\<rparr>]
                      noPosition] True noPosition))
                 \<lparr>StartLine = 0, StartColumn = 0, EndLine = 0, EndColumn = 8\<rparr>)"
    by code_simp
  have m: "FindStringSubmatch footnoteRegexp (drop 0 ''[fn:1:x]'') = Some [''[fn:1:x]'', ''1'', '':x'', ''x'']"
    by code_simp
  have m2: "FindStringSubmatch footnoteRegexp (drop 0 ''[fn::]'') = Some [''[fn::]'', [], '':'', []]"
    by code_simp
  have "parseFootnoteReferenceWithPos ?rec ?d ''[fn::]'' 0 0 0 = Some (0, NilNode)"
    using parseFootnoteReferenceWithPos_empty [of 0 "''[fn::]''" ?rec ?d 0 0] m2 by simp
  then show ?thesis using r m by simp
qed

subsection \<open>Autolinks\<close>

lemma autolink_see:
  "AutoLink (Config d) \<longrightarrow>
     parseInline d ''see https://example.com/x here''
       = Some [Text ''see '' False \<lparr>StartLine = 0, StartColumn = 0, EndLine = 0, EndColumn = 4\<rparr>,
               RegularLink ''https'' [] ''https://example.com/x'' True
                 \<lparr>StartLine = 0, StartColumn = 4, EndLine = 0, EndColumn = 25\<rparr>,
               Text '' here'' False \<lparr>StartLine = 0, StartColumn = 25, EndLine = 0, EndColumn = 30\<rparr>]"
proof (cases d)
  case (fields Config Path tokens baseLvl Macros Links Nodes NamedNodes Outline BufferSettings Errors
      Pos FatalError sections)
  show ?thesis
  proof (cases Config)
    case (fields m a ds rl)
    show ?thesis
    proof (cases a)
      case True
      then have a: "a = True" by simp
      show ?thesis
        unfolding \<open>d = _\<close> \<open>Config = _\<close> a by code_simp
    next
      case False
      then show ?thesis
        unfolding \<open>d = _\<close> \<open>Config = _\<close> by simp
    qed
  qed
qed

lemma autolink_xhttps:
  "parseInline d ''xhttps://example.com''
     = Some [Text ''xhttps://example.com'' False
              \<lparr>StartLine = 0, StartColumn = 0, EndLine = 0, EndColumn = 20\<rparr>]"
proof (cases d)
  case (fields Config Path tokens baseLvl Macros Links Nodes NamedNodes Outline BufferSettings Errors
      Pos FatalError sections)
  show ?thesis
  proof (cases Config)
    case (fields m a ds rl)
    show ?thesis
    proof (cases a)
      case True
      then have a: "a = True" by simp
      show ?thesis
        unfolding \<open>d = _\<close> \<open>Config = _\<close> a by code_simp
    next
      case False
      then have a: "a = False" by simp
      show ?thesis
        unfolding \<open>d = _\<close> \<open>Config = _\<close> a by code_simp
    qed
  qed
qed

lemma autolink_xhttps_scan:
  "parseAutoLinkWithPos d ''xhttps://example.com'' 6 sl sc = (0, 0, NilNode)"
proof -
  have "FindStringSubmatch autolinkProtocols
          (slice ''xhttps://example.com'' (protocolStartOf ''xhttps://example.com'' (6 - 1)) 6) = None"
    by code_simp
  then show ?thesis
    by (simp only: parseAutoLinkWithPos_def Let_def option.case if_cancel)
qed

text \<open>
  C5. With auto-linking enabled, inline parsing of \<open>see https://example.com/x here\<close> gives
  the text \<open>see \<close>, a RegularLink with protocol \<open>https\<close>, URL \<open>https://example.com/x\<close> and the
  auto-link mark, and the text \<open> here\<close>: the backward scan from the colon stops after the
  blank at index 3, so the protocol is read from index 4, and the forward scan ends at the
  blank after \<open>x\<close>. For \<open>xhttps://example.com\<close> the backward scan runs to index 0, the
  letters before \<open>://\<close> are \<open>xhttps\<close>, no scheme, the autolink scanner returns no match and
  the whole text comes back as one Text node, whether auto-linking is enabled or not.
\<close>

theorem parseAutoLink_examples:
  "(AutoLink (Config d) \<longrightarrow>
      parseInline d ''see https://example.com/x here''
        = Some [Text ''see '' False \<lparr>StartLine = 0, StartColumn = 0, EndLine = 0, EndColumn = 4\<rparr>,
                RegularLink ''https'' [] ''https://example.com/x'' True
                  \<lparr>StartLine = 0, StartColumn = 4, EndLine = 0, EndColumn = 25\<rparr>,
                Text '' here'' False \<lparr>StartLine = 0, StartColumn = 25, EndLine = 0, EndColumn = 30\<rparr>])
   \<and> protocolStartOf ''see https://example.com/x here'' 8 = 4
   \<and> slice ''see https://example.com/x here'' 4 9 = ''https''
   \<and> takeWhile (\<lambda>c. ContainsRune validURLCharacters (byte c)) (drop 9 ''see https://example.com/x here'')
       = ''://example.com/x''
   \<and> parseInline d ''xhttps://example.com''
       = Some [Text ''xhttps://example.com'' False
                \<lparr>StartLine = 0, StartColumn = 0, EndLine = 0, EndColumn = 20\<rparr>]
   \<and> protocolStartOf ''xhttps://example.com'' 5 = 0
   \<and> slice ''xhttps://example.com'' 0 6 = ''xhttps''
   \<and> FindStringSubmatch autolinkProtocols ''xhttps'' = None
   \<and> parseAutoLinkWithPos d ''xhttps://example.com'' 6 sl sc = (0, 0, NilNode)"
proof -
  have "protocolStartOf ''see https://example.com/x here'' 8 = 4"
    and "slice ''see https://example.com/x here'' 4 9 = ''https''"
    and "takeWhile (\<lambda>c. ContainsRune validURLCharacters (byte c)) (drop 9 ''see https://example.com/x here'')
       = ''://example.com/x''"
    and "protocolStartOf ''xhttps://example.com'' 5 = 0"
    and "slice ''xhttps://example.com'' 0 6 = ''xhttps''"
    and "FindStringSubmatch autolinkProtocols ''xhttps'' = None"
    by code_simp+
  then show ?thesis
    using autolink_see [of d] autolink_xhttps [of d] autolink_xhttps_scan [of d sl sc] by blast
qed

theorem parseAutoLink_examples_witness:
  "AutoLink (Config (newDocument New []))
   \<and> parseInline (newDocument New []) ''see https://example.com/x here''
        = Some [Text ''see '' False \<lparr>StartLine = 0, StartColumn = 0, EndLine = 0, EndColumn = 4\<rparr>,
                RegularLink ''https'' [] ''https://example.com/x'' True
                  \<lparr>StartLine = 0, StartColumn = 4, EndLine = 0, EndColumn = 25\<rparr>,
                Text '' here'' False \<lparr>StartLine = 0, StartColumn = 25, EndLine = 0, EndColumn = 30\<rparr>]"
proof -
  have a: "AutoLink (Config (newDocument New []))"
    by (simp add: newDocument_def New_def)
  show ?thesis
    using parseAutoLink_examples [of "newDocument New []" 0 0] a by blast
qed

subsection \<open>The parsers' equations\<close>

text \<open>
  The seven functions, each with one unit of fuel more than the calls in its body. These
  equations are the ones evaluation uses.
\<close>

lemma parseOne_0 [code]: "parseOne 0 x d i stop = OutOfFuel"
  by (simp add: parseOne_def)

lemma parseOne_Suc [code]:
  "parseOne (Suc n) x d i stop =
     (case tokenAt d i of
        None \<Rightarrow> Panicked IndexOutOfRange d
      | Some t \<Rightarrow>
          (case dispatch x (parseList n x) (parseFootnoteDefinition n x) t d i stop of
             OutOfFuel \<Rightarrow> OutOfFuel
           | Panicked p d' \<Rightarrow> Panicked p d'
           | Ret d1 (consumed, node) \<Rightarrow>
               if consumed \<noteq> 0 then Ret d1 (consumed, node)
               else (case coerceToText d1 i of
                       Inl (p, d') \<Rightarrow> Panicked p d'
                     | Inr d2 \<Rightarrow> parseOne n x d2 i stop)))"
  unfolding parseOne_def parseList_def parseFootnoteDefinition_def by (simp add: parseOne_body_def)

lemma parseManyLoop_0 [code]: "parseManyLoop 0 x stop start d i nodes = OutOfFuel"
  by (simp add: parseManyLoop_def)

lemma parseManyLoop_Suc [code]:
  "parseManyLoop (Suc n) x stop start d i nodes =
     (if i < int (length (toks d)) then
        (case stop d i of
           Inl p \<Rightarrow> Panicked p d
         | Inr True \<Rightarrow> Ret d (i - start, nodes)
         | Inr False \<Rightarrow>
             (case parseOne n x d i stop of
                OutOfFuel \<Rightarrow> OutOfFuel
              | Panicked p d' \<Rightarrow> Panicked p d'
              | Ret d' (consumed, node) \<Rightarrow>
                  parseManyLoop n x stop start d' (i + consumed)
                    (if node \<noteq> NilNode then nodes @ [node] else nodes)))
      else Ret d (i - start, nodes))"
  unfolding parseManyLoop_def parseOne_def by (simp add: parseManyLoop_body_def)

lemma parseList_0 [code]: "parseList 0 x d i parentStop = OutOfFuel"
  by (simp add: parseList_def)

lemma parseList_Suc [code]:
  "parseList (Suc n) x d i parentStop =
     (case tokenAt d i of
        None \<Rightarrow> Panicked IndexOutOfRange d
      | Some t \<Rightarrow>
          (case listKind t of
             Inl p \<Rightarrow> Panicked p d
           | Inr (listMainKind, lKind) \<Rightarrow>
               (case parseListLoop n x parentStop (lvl t) listMainKind lKind d i [] of
                  OutOfFuel \<Rightarrow> OutOfFuel
                | Panicked p d' \<Rightarrow> Panicked p d'
                | Ret d' (i', items) \<Rightarrow>
                    (case spanOf d' i i' of
                       None \<Rightarrow> Panicked IndexOutOfRange d'
                     | Some pos \<Rightarrow> Ret d' (i' - i, ListNode lKind items pos)))))"
  unfolding parseList_def parseListLoop_def by (simp add: parseList_body_def)

lemma parseListLoop_0 [code]: "parseListLoop 0 x parentStop lvl0 listMainKind lKind d i items = OutOfFuel"
  by (simp add: parseListLoop_def)

lemma parseListLoop_Suc [code]:
  "parseListLoop (Suc n) x parentStop lvl0 listMainKind lKind d i items =
     (case parseList_stop parentStop lvl0 listMainKind d i of
        Inl p \<Rightarrow> Panicked p d
      | Inr True \<Rightarrow> Ret d (i, items)
      | Inr False \<Rightarrow>
          (case parseListItem n x lKind d i parentStop of
             OutOfFuel \<Rightarrow> OutOfFuel
           | Panicked p d' \<Rightarrow> Panicked p d'
           | Ret d' (consumed, node) \<Rightarrow>
               parseListLoop n x parentStop lvl0 listMainKind lKind d' (i + consumed) (items @ [node])))"
  unfolding parseListLoop_def parseListItem_def by (simp add: parseListLoop_body_def)

lemma parseListItem_0 [code]: "parseListItem 0 x lKind d i parentStop = OutOfFuel"
  by (simp add: parseListItem_def)

lemma parseListItem_Suc [code]:
  "parseListItem (Suc n) x lKind d i parentStop =
     (let originalBaseLvl = baseLvl d in
      case parseListItem_enter x lKind d i of
        Inl (p, d') \<Rightarrow> Panicked p d'
      | Inr (d1, bullet, minIndent, dterm, status, val) \<Rightarrow>
          (case parseListItemLoop n x (parseListItem_stop parentStop minIndent) i d1 i [] of
             OutOfFuel \<Rightarrow> OutOfFuel
           | Panicked p d' \<Rightarrow> Panicked p d'
           | Ret d2 (i', nodes) \<Rightarrow>
               (let d3 = d2\<lparr>baseLvl := originalBaseLvl\<rparr> in
                if lKind = DescriptiveList then
                  (case parseInline d3 dterm of
                     None \<Rightarrow> OutOfFuel
                   | Some term \<Rightarrow>
                       (case spanOf d3 i i' of
                          None \<Rightarrow> Panicked IndexOutOfRange d3
                        | Some pos \<Rightarrow> Ret d3 (i' - i, DescriptiveListItem bullet status term nodes pos)))
                else
                  (case spanOf d3 i i' of
                     None \<Rightarrow> Panicked IndexOutOfRange d3
                   | Some pos \<Rightarrow> Ret d3 (i' - i, ListItem bullet status val nodes pos)))))"
  unfolding parseListItem_def parseListItemLoop_def by (simp add: parseListItem_body_def)

lemma parseListItemLoop_0 [code]: "parseListItemLoop 0 x stop start d i nodes = OutOfFuel"
  by (simp add: parseListItemLoop_def)

lemma parseListItemLoop_Suc [code]:
  "parseListItemLoop (Suc n) x stop start d i nodes =
     (case parseListItem_continues x stop start d i of
        Inl p \<Rightarrow> Panicked p d
      | Inr False \<Rightarrow> Ret d (i, nodes)
      | Inr True \<Rightarrow>
          (case parseOne n x d i stop of
             OutOfFuel \<Rightarrow> OutOfFuel
           | Panicked p d' \<Rightarrow> Panicked p d'
           | Ret d' (consumed, node) \<Rightarrow>
               parseListItemLoop n x stop start d' (i + consumed) (nodes @ [node])))"
  unfolding parseListItemLoop_def parseOne_def by (simp add: parseListItemLoop_body_def)

lemma parseFootnoteDefinition_0 [code]: "parseFootnoteDefinition 0 x d i parentStop = OutOfFuel"
  by (simp add: parseFootnoteDefinition_def)

lemma parseFootnoteDefinition_Suc [code]:
  "parseFootnoteDefinition (Suc n) x d i parentStop =
     (case tokenAt d i of
        None \<Rightarrow> Panicked IndexOutOfRange d
      | Some startToken \<Rightarrow>
          (case strAt (matches startToken) 2 of
             None \<Rightarrow> Panicked IndexOutOfRange d
           | Some rest \<Rightarrow>
               (let tk = tokenize x rest;
                    d1 = setToken d i (fst tk);
                    d2 = (if \<not> snd tk
                          then AddError d1 ErrorTypeTokenization ''could not lex line''
                                 (getPositionFromToken (fst tk)) (fst tk)
                                 (NoLexerMatchedLine (line (fst tk)))
                          else d1)
                in case parseManyLoop n x (parseFootnoteDefinition_stop x parentStop i) i d2 i [] of
                     OutOfFuel \<Rightarrow> OutOfFuel
                   | Panicked p d' \<Rightarrow> Panicked p d'
                   | Ret d3 (consumed, nodes) \<Rightarrow>
                       if consumed > 0 then
                         (case tokenAt d3 (i + consumed - 1) of
                            None \<Rightarrow> Panicked IndexOutOfRange d3
                          | Some e \<Rightarrow>
                              Ret d3 (consumed,
                                FootnoteDefinitionNode
                                  (FootnoteDefinition (content startToken) nodes False
                                     \<lparr>StartLine = line startToken, StartColumn = startCol startToken,
                                      EndLine = line e, EndColumn = endCol e\<rparr>)))
                       else Ret d3 (consumed,
                              FootnoteDefinitionNode
                                (FootnoteDefinition (content startToken) nodes False noPosition)))))"
  unfolding parseFootnoteDefinition_def parseManyLoop_def by (simp add: parseFootnoteDefinition_body_def)

subsection \<open>The plain-text pattern\<close>

lemma rep_greedy_star:
  assumes "\<And>s'. k s' \<noteq> None"
  shows "rep p 0 None True s cnt k = k (dropWhile p s)"
proof (induction s arbitrary: cnt)
  case Nil
  then show ?case by simp
next
  case (Cons c s)
  show ?case
  proof (cases "p c")
    case True
    from assms [of "dropWhile p s"] obtain r where "k (dropWhile p s) = Some r" by auto
    then show ?thesis using True Cons.IH [of "Suc cnt"] by simp
  next
    case False
    then show ?thesis by simp
  qed
qed

lemma take_length_dropWhile:
  "take (length s - length (dropWhile p s)) s = takeWhile p s"
  by (induction s) (auto simp: Suc_diff_le length_dropWhile_le)

lemma FindStringSubmatch_plainTextRegexp:
  "FindStringSubmatch plainTextRegexp s = Some (plainMatch s)"
proof -
  let ?s1 = "dropWhile spacec s"
  let ?s2 = "dropWhile dot ?s1"
  let ?cs = "((\<lambda>_. [])(1 := take (length s - length ?s1) s))(2 := take (length ?s1 - length ?s2) ?s1)"
  have r2: "\<And>cs' s'. rep dot 0 None True s' 0 (\<lambda>s''. Some (s'', cs'(2 := take (length s' - length s'') s')))
      = Some (dropWhile dot s', cs'(2 := take (length s' - length (dropWhile dot s')) s'))"
    by (subst rep_greedy_star) simp_all
  have r1: "rmatch (body plainTextRegexp) s (\<lambda>_. []) (\<lambda>s' cs. Some (s', cs)) = Some (?s2, ?cs)"
    unfolding plainTextRegexp_def starOf_def
    by (simp add: r2) (subst rep_greedy_star, simp_all)
  let ?A = "takeWhile spacec s" and ?B = "takeWhile dot ?s1"
  have e: "s = (?A @ ?B) @ ?s2" by simp
  have l: "length s - length ?s2 = length (?A @ ?B)"
    using arg_cong [OF e, of length] by (simp only: length_append)
  have g: "\<And>xs ys :: string. take (length xs) (xs @ ys) = xs"
    by simp
  have w: "take (length s - length ?s2) s = ?A @ ?B"
    unfolding l
    by (rule trans [OF arg_cong [OF e, of "take (length (?A @ ?B))"] g])
  have a: "anchored plainTextRegexp" "groups plainTextRegexp = Suc (Suc 0)"
    by (simp_all add: plainTextRegexp_def)
  show ?thesis
    by (simp add: FindStringSubmatch_def findFirst_def matchAt_def r1 w plainMatch_def
        take_length_dropWhile numeral_2_eq_2 a)
qed

lemma plainMatch_idem: "plainMatch (plainMatch s ! 0) = plainMatch s"
proof -
  let ?ws = "takeWhile spacec s" and ?b = "takeWhile dot (dropWhile spacec s)"
  have tb: "takeWhile spacec ?b = []"
  proof (cases "dropWhile spacec s")
    case Nil
    show ?thesis by (simp only: Nil takeWhile.simps)
  next
    case (Cons a l)
    then have "\<not> spacec a"
      using hd_dropWhile [of spacec s] by simp
    then show ?thesis using Cons by simp
  qed
  have ws: "\<And>c. c \<in> set ?ws \<Longrightarrow> spacec c"
    by (auto dest: set_takeWhileD)
  have t: "takeWhile spacec (?ws @ ?b) = ?ws"
    using ws by (simp add: takeWhile_append2 tb)
  have "dropWhile spacec ?b = ?b"
    using takeWhile_dropWhile_id [of spacec ?b] unfolding tb by simp
  then have d: "dropWhile spacec (?ws @ ?b) = ?b"
    using ws by (simp add: dropWhile_append2)
  show ?thesis
    by (simp add: plainMatch_def t d)
qed

subsection \<open>The tokenizer\<close>

text \<open>
  With the plain-text matcher as the last line matcher, every line is classified: the
  branch of \<open>Document.tokenize\<close> for a line no matcher classifies (lines 205-210) is not
  reached then.
\<close>

lemma textToken_matches: "textToken ln \<noteq> None"
  by (simp add: textToken_def FindStringSubmatch_plainTextRegexp)

lemma firstMatch_last:
  "f ln \<noteq> None \<Longrightarrow> firstMatch (fs @ [f]) ln \<noteq> None"
  by (induction fs) (auto split: option.splits)

lemma tokenize_always_matches:
  assumes "lexText x = textToken"
  shows "snd (tokenize x ln)"
proof -
  have eq: "lexFns x = [lexHeadline x, lexDrawer x, lexBlock x, lexResult x, lexList, lexTable x,
      lexHorizontalRule x, lexKeywordOrComment x, lexFootnoteDefinition, lexExample x,
      lexLatexBlock x] @ [textToken]"
    using assms by (simp add: lexFns_def)
  have "firstMatch (lexFns x) ln \<noteq> None"
    unfolding eq by (rule firstMatch_last [OF textToken_matches])
  then show ?thesis
    by (auto simp: tokenize_def)
qed

subsection \<open>Parse\<close>

text \<open>
  C6, on the code. \<open>Parse\<close> tests \<open>d.tokens != nil\<close> on the document it has just made, whose
  \<open>tokens\<close> are nil: the branch that records \<open>parse called multiple times\<close> and returns nil
  is never taken. Every call, the second on the same configuration like the first,
  tokenizes and parses its input, and a call that returns never returns nil.
\<close>

theorem Parse_guard_never_fires:
  "tokens (newDocument c path) = None
   \<and> Parse fuel x c input path \<noteq> Some None
   \<and> Parse fuel x c input path
       = (case Document_tokenize x (newDocument c path) input of
            Inl (p, d') \<Rightarrow>
              Some (Some (AddError d' ErrorTypeInvalidStructure ''parse panic'' (Pos d') zeroToken
                            (RecoveredFromPanic p)))
          | Inr d1 \<Rightarrow>
              (case parseMany fuel x d1 0 topStop of
                 OutOfFuel \<Rightarrow> None
               | Panicked p d' \<Rightarrow>
                   Some (Some (AddError d' ErrorTypeInvalidStructure ''parse panic'' (Pos d') zeroToken
                                 (RecoveredFromPanic p)))
               | Ret d' (consumed, nodes) \<Rightarrow> Some (Some (d'\<lparr>Nodes := Some nodes\<rparr>))))"
proof -
  have n: "tokens (newDocument c path) = None"
    by (simp add: newDocument_def)
  then show ?thesis
    by (simp add: Parse_def Parse_body_def Let_def split: res.splits prod.splits sum.splits)
qed

theorem Parse_guard_never_fires_witness:
  "Parse 5 standIn New \<lparr>scanned = [''a''], ending = Eof\<rparr> ''a.org'' \<noteq> Some None
   \<and> observed (Parse 5 standIn New \<lparr>scanned = [''a''], ending = Eof\<rparr> ''a.org'')
       = Some ([], [],
               Some [Paragraph [Text ''a'' False \<lparr>StartLine = 0, StartColumn = 0, EndLine = 0, EndColumn = 1\<rparr>]
                       \<lparr>StartLine = 0, StartColumn = 0, EndLine = 0, EndColumn = 1\<rparr>],
               False, [''a''])"
proof -
  have "observed (Parse 5 standIn New \<lparr>scanned = [''a''], ending = Eof\<rparr> ''a.org'')
       = Some ([], [],
               Some [Paragraph [Text ''a'' False \<lparr>StartLine = 0, StartColumn = 0, EndLine = 0, EndColumn = 1\<rparr>]
                       \<lparr>StartLine = 0, StartColumn = 0, EndLine = 0, EndColumn = 1\<rparr>],
               False, [''a''])"
    by code_simp
  then show ?thesis
    using Parse_guard_never_fires [of New "''a.org''" 5 standIn "\<lparr>scanned = [''a''], ending = Eof\<rparr>"]
    by blast
qed

text \<open>
  C1, on the code. When the body of \<open>Parse\<close> panics, in the tokenizer or in a parser, the
  deferred function recovers: \<open>Parse\<close> returns the document, as the panic left it, with one
  more diagnostic at the end of \<open>Errors\<close>, of kind invalid structure, with the message
  \<open>parse panic\<close> and the panic as its cause, so \<open>HasErrors\<close> is true. The panic does not reach
  the caller. The deferred function calls \<open>AddError\<close>, not \<open>AddFatalError\<close>: the fatal-error
  slot stays as it was, and \<open>HasFatalError\<close> answers after the panic what it answered
  before. A nil reader panics at its first \<open>Read\<close>: the document \<open>Parse\<close> returns then has the
  one diagnostic of the panic, no nodes, and \<open>HasFatalError\<close> false.
\<close>

theorem Parse_recovers_panic:
  assumes "Parse_body fuel x (newDocument c path) input = Panicked p d'"
  shows "\<exists>d. Parse fuel x c input path = Some (Some d)
      \<and> d = AddError d' ErrorTypeInvalidStructure ''parse panic'' (Pos d') zeroToken (RecoveredFromPanic p)
      \<and> Errors d = Errors d' @ [NewParseError ErrorTypeInvalidStructure ''parse panic'' (Path d') (Pos d')
                                  zeroToken (RecoveredFromPanic p)]
      \<and> HasErrors d
      \<and> FatalError d = FatalError d'
      \<and> HasFatalError d = HasFatalError d'
      \<and> Nodes d = Nodes d'"
  using assms
  by (simp add: Parse_def Let_def newDocument_def AddError_def HasFatalError_def HasErrors_def)

theorem Parse_recovers_panic_witness:
  "\<forall>fuel x. observed (Parse fuel x New \<lparr>scanned = [], ending = ReadPanic NilDereference\<rparr> ''a.org'')
     = Some ([ErrorTypeInvalidStructure], [RecoveredFromPanic NilDereference], None, False, [])"
proof (intro allI)
  fix fuel x
  let ?in = "\<lparr>scanned = [], ending = ReadPanic NilDereference\<rparr>"
  let ?d' = "(newDocument New ''a.org'')\<lparr>tokens := Some []\<rparr>"
  have p: "Parse_body fuel x (newDocument New ''a.org'') ?in = Panicked NilDereference ?d'"
    by (simp add: Parse_body_def Document_tokenize_def)
  from Parse_recovers_panic [OF p] obtain d where
    r: "Parse fuel x New ?in ''a.org'' = Some (Some d)"
    and e: "Errors d = Errors ?d' @ [NewParseError ErrorTypeInvalidStructure ''parse panic'' (Path ?d') (Pos ?d')
                                  zeroToken (RecoveredFromPanic NilDereference)]"
    and d: "d = AddError ?d' ErrorTypeInvalidStructure ''parse panic'' (Pos ?d') zeroToken
                  (RecoveredFromPanic NilDereference)"
    and f: "HasFatalError d = HasFatalError ?d'"
    and n: "Nodes d = Nodes ?d'"
    by blast
  have t: "toks d = []"
    unfolding d by (simp add: AddError_def toks_def)
  have f': "\<not> HasFatalError d"
    using f by (simp add: HasFatalError_def newDocument_def)
  have n': "Nodes d = None"
    using n by (simp add: newDocument_def)
  have e': "map Type (Errors d) = [ErrorTypeInvalidStructure]"
    "map Cause (Errors d) = [RecoveredFromPanic NilDereference]"
    using e by (simp_all add: newDocument_def NewParseError_def)
  show "observed (Parse fuel x New ?in ''a.org'')
     = Some ([ErrorTypeInvalidStructure], [RecoveredFromPanic NilDereference], None, False, [])"
    unfolding r by (simp add: observed_def e' f' n' t)
qed

subsection \<open>List items\<close>

lemma parseListItem_enter_baseLvl:
  assumes "parseListItem_enter x lKind d i = Inr (d1, bullet, minIndent, dterm, status, val)"
  shows "\<exists>t. tokenAt d i = Some t \<and> strAt (matches t) 2 = Some bullet
      \<and> minIndent = lvl t + int (length bullet)
      \<and> baseLvl d1 =
          (if lKind = DescriptiveList
              \<and> FindStringIndex descriptiveListItemRegexp (snd (snd (stripValueAndStatus lKind (content t)))) \<noteq> None
           then Index (matches t ! 0) '' ::'' + 4
           else lvl t + int (length bullet) + 1)"
  using assms
  by (auto simp: parseListItem_enter_def Let_def setToken_def AddError_def
      split: option.splits if_splits prod.splits)

text \<open>
  C9, on the code. A call of \<open>parseListItem\<close> that returns leaves \<open>baseLvl\<close> as it found it:
  the document returned is the one the body's loop returned, with \<open>baseLvl\<close> put back, on
  both returns. In between, the first part of the function has set it to the level of the
  item's token plus the length of the bullet plus one, or, for an item of a descriptive
  list whose content (after the counter value and the checkbox) holds the separator, to
  the index of the first \<open> ::\<close> in the line plus four, and the item's body is parsed from
  that document. That index is the column just past the separator only when the first
  \<open> ::\<close> of the line is the separator: in \<open>- a ::b :: c\<close> the separator found is the second
  one, which ends at column 11, and the body is parsed with \<open>baseLvl\<close> 7.
\<close>

theorem parseListItem_restores_baseLvl:
  assumes "parseListItem n x lKind d i parentStop = Ret d' r"
  shows "baseLvl d' = baseLvl d
     \<and> (\<exists>t bullet d1 dterm status val m d2 i' nodes.
           tokenAt d i = Some t \<and> strAt (matches t) 2 = Some bullet
         \<and> parseListItem_enter x lKind d i
              = Inr (d1, bullet, lvl t + int (length bullet), dterm, status, val)
         \<and> baseLvl d1 =
             (if lKind = DescriptiveList
                 \<and> FindStringIndex descriptiveListItemRegexp
                      (snd (snd (stripValueAndStatus lKind (content t)))) \<noteq> None
              then Index (matches t ! 0) '' ::'' + 4
              else lvl t + int (length bullet) + 1)
         \<and> n = Suc m
         \<and> parseListItemLoop m x (parseListItem_stop parentStop (lvl t + int (length bullet))) i d1 i []
              = Ret d2 (i', nodes)
         \<and> d' = d2\<lparr>baseLvl := baseLvl d\<rparr>)"
proof (cases n)
  case 0
  then show ?thesis using assms by (simp add: parseListItem_0)
next
  case (Suc m)
  from assms obtain d1 bullet minIndent dterm status val
    where en: "parseListItem_enter x lKind d i = Inr (d1, bullet, minIndent, dterm, status, val)"
    unfolding Suc parseListItem_Suc Let_def
    by (cases "parseListItem_enter x lKind d i") (auto split: prod.splits)
  from parseListItem_enter_baseLvl [OF en] obtain t where t: "tokenAt d i = Some t"
    and b: "strAt (matches t) 2 = Some bullet" and mi: "minIndent = lvl t + int (length bullet)"
    and bl: "baseLvl d1 =
          (if lKind = DescriptiveList
              \<and> FindStringIndex descriptiveListItemRegexp (snd (snd (stripValueAndStatus lKind (content t)))) \<noteq> None
           then Index (matches t ! 0) '' ::'' + 4
           else lvl t + int (length bullet) + 1)"
    by blast
  from assms en obtain d2 i' nodes
    where lp: "parseListItemLoop m x (parseListItem_stop parentStop minIndent) i d1 i [] = Ret d2 (i', nodes)"
      and d': "d' = d2\<lparr>baseLvl := baseLvl d\<rparr>"
    unfolding Suc parseListItem_Suc Let_def
    by (auto split: res.splits prod.splits option.splits if_splits)
  have "baseLvl d' = baseLvl d" using d' by simp
  then show ?thesis
    using t b en bl lp d' Suc unfolding mi by blast
qed

theorem parseListItem_restores_baseLvl_witness:
  "\<exists>d' r d1 rest.
      parseListItem 3 standIn DescriptiveList
        ((newDocument New ''a.org'')\<lparr>tokens := Some [the (lexList ''- a ::b :: c'')], baseLvl := 2\<rparr>)
        0 topStop = Ret d' r
    \<and> baseLvl d' = 2
    \<and> parseListItem_enter standIn DescriptiveList
        ((newDocument New ''a.org'')\<lparr>tokens := Some [the (lexList ''- a ::b :: c'')], baseLvl := 2\<rparr>) 0
          = Inr (d1, rest)
    \<and> baseLvl d1 = 7
    \<and> FindStringIndex descriptiveListItemRegexp ''a ::b :: c'' = Some (5, 9)
    \<and> content (the (lexList ''- a ::b :: c'')) = ''a ::b :: c''
    \<and> Index ''- a ::b :: c'' '' :: c'' = 7"
proof -
  let ?t = "the (lexList ''- a ::b :: c'')"
  let ?d = "(newDocument New ''a.org'')\<lparr>tokens := Some [?t], baseLvl := 2\<rparr>"
  have t: "?t = mkToken ''unorderedList'' 0 ''a ::b :: c'' [''- a ::b :: c'', [], ''-'', '' a ::b :: c'', ''a ::b :: c'']"
    by code_simp
  have f: "FindStringIndex descriptiveListItemRegexp ''a ::b :: c'' = Some (5, 9)"
    and ix: "Index ''- a ::b :: c'' '' :: c'' = 7"
    and i3: "Index ''- a ::b :: c'' '' ::'' = 3"
    and sv: "stripValueAndStatus DescriptiveList ''a ::b :: c'' = ([], [], ''a ::b :: c'')"
    by code_simp+
  have "case parseListItem 3 standIn DescriptiveList ?d 0 topStop of Ret d' r \<Rightarrow> True | _ \<Rightarrow> False"
    by code_simp
  then obtain d' r where r: "parseListItem 3 standIn DescriptiveList ?d 0 topStop = Ret d' r"
    by (auto split: res.splits)
  have ta: "tokenAt ?d 0 = Some ?t"
    by (simp add: tokenAt_def toks_def)
  from parseListItem_restores_baseLvl [OF r] ta obtain bullet d1 dterm status val where
    b: "baseLvl d' = baseLvl ?d"
    and en: "parseListItem_enter standIn DescriptiveList ?d 0
              = Inr (d1, bullet, lvl ?t + int (length bullet), dterm, status, val)"
    and bl: "baseLvl d1 =
             (if DescriptiveList = DescriptiveList
                 \<and> FindStringIndex descriptiveListItemRegexp
                      (snd (snd (stripValueAndStatus DescriptiveList (content ?t)))) \<noteq> None
              then Index (matches ?t ! 0) '' ::'' + 4
              else lvl ?t + int (length bullet) + 1)"
    by auto
  have c: "content ?t = ''a ::b :: c''" and m: "matches ?t ! 0 = ''- a ::b :: c''"
    unfolding t by (simp_all add: mkToken_def)
  have "baseLvl d1 = 7"
    using bl unfolding c m sv by (simp add: f i3)
  then show ?thesis
    using r b en f c ix by (intro exI [of _ d'] exI [of _ r] exI [of _ d1]) auto
qed

subsection \<open>The retry of parseOne\<close>

lemma coerceToText_eq:
  assumes tok1: "tokenAt d1 i = Some t1" and m0: "matches t1 = m0 # ms"
  shows "coerceToText d1 i
     = Inr (setToken (AddError d1 ErrorTypeUnexpectedToken ''could not parse token''
                        (getPositionFromToken t1) t1 (NoParserMatched (kind t1))) i
              (mkToken ''text'' (int (length (takeWhile spacec m0)))
                 (takeWhile dot (dropWhile spacec m0)) (plainMatch m0)))"
  using assms
  by (simp add: coerceToText_def Let_def strAt_def FindStringSubmatch_plainTextRegexp)
     (simp add: plainMatch_def)

lemma plainMatch_idem_parts:
  "takeWhile spacec (plainMatch s ! 0) = takeWhile spacec s"
  "takeWhile dot (dropWhile spacec (plainMatch s ! 0)) = takeWhile dot (dropWhile spacec s)"
  using plainMatch_idem [of s] unfolding plainMatch_def by simp_all

lemma toks_AddError: "toks (AddError d typ message pos tok cause) = toks d"
  by (simp add: AddError_def toks_def)

lemma tokenAt_setToken:
  assumes "tokenAt d i = Some t" and "toks d' = toks d"
  shows "tokenAt (setToken d' i tt) i = Some tt"
  using assms by (auto simp: tokenAt_def setToken_def toks_def split: if_splits)



text \<open>
  The claim as it was stated holds of every token. \<open>nilToken\<close>, the token \<open>parseListItem\<close> and
  \<open>parseFootnoteDefinition\<close> put in place when the tokenizer matched nothing, has no matches:
  no case of the switch takes it, and the coercion panics at \<open>matches[0]\<close>, whatever the
  parsers outside the three files are.
\<close>

lemma parseOne_nilToken:
  assumes "tokenAt d i = Some nilToken"
  shows "panicOf (parseOne (Suc n) x d i stop) = Some IndexOutOfRange"
  using assms
  by (simp add: parseOne_Suc dispatch_def otherParser_def nilToken_def mkToken_def
      coerceToText_def strAt_def Let_def panicOf_def)


subsection \<open>The top-level loop\<close>

text \<open>
  When the top-level \<open>parseMany\<close> returns, its index has reached the end of the tokens as
  they are then. Whether it returns, and whether each token was consumed once, is up to
  the parsers outside the three files.
\<close>

lemma parseManyLoop_returns_at_end:
  assumes "parseManyLoop n x topStop start d i nodes = Ret d' (consumed, nodes')"
  shows "int (length (toks d')) \<le> start + consumed"
  using assms
proof (induction n arbitrary: d i nodes)
  case 0
  then show ?case by (simp add: parseManyLoop_0)
next
  case (Suc n)
  show ?case
  proof (cases "i < int (length (toks d))")
    case False
    then show ?thesis using Suc.prems by (auto simp: parseManyLoop_Suc)
  next
    case True
    then have ts: "topStop d i = Inr False"
      by (simp add: topStop_def)
    obtain d1 c node where
      "parseManyLoop n x topStop start d1 (i + c) (if node \<noteq> NilNode then nodes @ [node] else nodes)
         = Ret d' (consumed, nodes')"
      using Suc.prems True
      by (auto simp: parseManyLoop_Suc ts split: res.splits prod.splits if_splits)
    then show ?thesis by (rule Suc.IH)
  qed
qed

end
